theory Spec2Isabelle
  imports Main
begin

section \<open>Syntax trees built by the route processor\<close>

text \<open>
  The processor builds JavaScript syntax trees with the builders of recast
  (\<open>AST.identifier\<close>, \<open>AST.memberExpression\<close>, ...). Each builder the
  source calls is a constructor here, with the builder's arguments in the builder's order.
  \<open>AST.literal\<close> is called with strings and with list indices.
\<close>

datatype literal_value = LString string | LNumber nat

datatype expression =
    Identifier string
  | Literal literal_value
  | StringLiteral string
  | BooleanLiteral bool
  | MemberExpression expression expression
  | CallExpression expression "expression list"
  | NewExpression expression "expression list"
  | ArrayExpression "expression list"
  | ObjectExpression "property list"
  | AssignmentExpression string expression expression
  | LogicalExpression string expression expression
  | AwaitExpression expression
and property =
    ObjectProperty expression expression
  | SpreadElement expression

text \<open>
  Statements. \<open>VariableDeclaration\<close> carries its kind and its declarators (identifier and
  initialiser); \<open>FunctionDeclaration\<close> carries identifier, parameters, body and the
  \<open>async\<close> flag the source sets after building the declaration. \<open>ImportDeclaration\<close>
  (specifiers and source module) is what the import helpers insert, and
  \<open>SourceStatement\<close> stands for any statement the user wrote in the module.
\<close>

datatype statement =
    VariableDeclaration string "(expression \<times> expression) list"
  | ExpressionStatement expression
  | ReturnStatement expression
  | LabeledStatement expression statement
  | BlockStatement "statement list"
  | FunctionDeclaration expression "expression list" statement bool
  | ExportNamedDeclaration statement
  | ImportDeclaration "string list" string
  | SourceStatement string

section \<open>Records of the processor\<close>

record QueryInfo =
  name :: string
  variables :: bool

record LoadTarget = QueryInfo +
  store_id :: expression

record PageScriptInfo =
  load :: "QueryInfo list option"
  exports :: "string list"

record Config =
  framework :: string
  isRoute :: "string \<Rightarrow> bool"
  isRouteScript :: "string \<Rightarrow> bool"
  routePagePath :: "string \<Rightarrow> string"
  pageQueryPath :: "string \<Rightarrow> string"
  routeDataPath :: "string \<Rightarrow> string"

text \<open>
  The page being transformed. Its mutable parts, the body of \<open>page.script\<close> and the
  lines written with \<open>console.log\<close>, are threaded through the functions as a
  \<open>state\<close>.
\<close>

record TransformPage =
  config :: Config
  filepath :: string
  mock_page_info :: "PageScriptInfo option"

record state =
  script :: "statement list"
  console :: "string list"

definition console_log :: "string \<Rightarrow> state \<Rightarrow> state" where
  "console_log line st = st\<lparr>console := console st @ [line]\<rparr>"

text \<open>
  \<open>Array.prototype.splice(start, 0, ...items)\<close>: a negative start counts from the end,
  a start beyond the end is the end; nothing is deleted.
\<close>

definition array_splice :: "int \<Rightarrow> 'a list \<Rightarrow> 'a list \<Rightarrow> 'a list" where
  "array_splice start items xs =
     (let n = int (length xs);
          s = (if start < 0 then max (n + start) 0 else min start n)
      in take (nat s) xs @ items @ drop (nat s) xs)"


section \<open>Query documents and the world outside the processor\<close>

text \<open>
  What the processor reads from a parsed query document: the kind of each definition, the
  operation type, the optional name and, for each declared variable, whether its type is
  non-null and whether it has a default value.
\<close>

datatype operation_type = OpQuery | OpMutation | OpSubscription

record VariableDefinition =
  non_null :: bool
  has_default :: bool

datatype DefinitionNode =
    OperationDefinition operation_type "string option" "VariableDefinition list"
  | FragmentDefinition string
  | TypeSystemDefinition

type_synonym DocumentNode = "DefinitionNode list"

text \<open>
  The predicate \<open>defn.kind === 'OperationDefinition' && defn.operation === 'query'\<close>.
\<close>

fun is_query_definition :: "DefinitionNode \<Rightarrow> bool" where
  "is_query_definition (OperationDefinition operation _ _) = (operation = OpQuery)"
| "is_query_definition _ = False"

text \<open>
  Modelled from the spec: \<open>operation_requires_variables\<close> is imported from the common
  module, which is not among the sources. The spec: an operation requires variables iff it
  has at least one variable definition whose type is non-null and has no default value.
\<close>

fun operation_requires_variables :: "DefinitionNode \<Rightarrow> bool" where
  "operation_requires_variables (OperationDefinition _ _ vars) =
     list_ex (\<lambda>v. non_null v \<and> \<not> has_default v) vars"
| "operation_requires_variables _ = False"

text \<open>
  An embedded query-language literal of a component document, as the tag walker meets it:
  its text and the type of its syntactic parent.
\<close>

record EmbeddedTag =
  tag_text :: string
  parent_type :: string

text \<open>
  What a route module can export as \<open>houdini_load\<close>. The module is user code that is
  imported at build time, so an entry of the list is any JavaScript value: \<open>null\<close> or
  \<open>undefined\<close>, a string, another primitive (a number or a boolean, of which the
  processor can only see whether it is truthy), or an object. Of an object the processor
  reads the name, the variables flag and the \<open>kind\<close> discriminator, which an object
  that is no store does not have; an object is taken to have a name and a variables flag.
  The export itself is absent, a single value that is no array, or an array. The processor
  tests the export with \<open>!module.houdini_load\<close>, which holds when it is absent and for
  the single values \<open>null\<close>, \<open>undefined\<close>, the empty string, zero and \<open>false\<close>.
\<close>

record GraphQLTagResult = QueryInfo +
  kind :: "string option"

datatype load_entry =
    NullEntry
  | StringEntry string
  | PrimitiveEntry bool
  | ObjectEntry GraphQLTagResult

datatype houdini_load_export =
    NoExport
  | SingleEntry load_entry
  | EntryArray "load_entry list"

fun falsy :: "load_entry \<Rightarrow> bool" where
  "falsy NullEntry = True"
| "falsy (StringEntry text) = (text = [])"
| "falsy (PrimitiveEntry truthy) = (\<not> truthy)"
| "falsy (ObjectEntry store) = False"

record script_module =
  keys :: "string list"
  houdini_load :: houdini_load_export

text \<open>What loading a module gives: the module, or the text of the error thrown.\<close>

datatype load_result = Loaded script_module | LoadFailed string

text \<open>
  The exceptions that can leave the processor. A function that can throw returns either
  the error together with the state of the page at the throw, or its result together with
  the new state.
\<close>

datatype error = GraphQLError | SvelteParseError | TypeError

type_synonym 'a outcome = "(error \<times> state) + ('a \<times> state)"

text \<open>
  Everything the processor calls that lives outside the route processor: the process
  environment, the runtime's constant \<open>CompiledQueryKind\<close>, the file system, the two
  parsers (\<open>None\<close> when the parser throws), the dynamic import of the route module
  (\<open>None\<close> when it throws), the text of the tag walker's diagnostic for a literal
  that does not parse, and the two import helpers. The other revision of the processor
  also asks whether a file exists (\<open>stat\<close>), loads the module through \<open>page.load\<close>
  and prints the list of exports, for which \<open>inspect\<close> gives the printed text. The helpers mutate the script
  they are given, so they return the new body next to their result: \<open>ensure_imports\<close>
  its \<open>ids\<close> and \<open>added\<close>, \<open>store_import\<close> (called with the artifact's name) its
  \<open>id\<close> and \<open>added\<close>. All theorems below hold for every such environment.
\<close>

record env =
  NODE_ENV :: string
  CompiledQueryKind :: string
  readFile :: "string \<Rightarrow> string option"
  graphql_parse :: "string \<Rightarrow> DocumentNode option"
  parseSvelte :: "string \<Rightarrow> EmbeddedTag list option"
  import_module :: "string \<Rightarrow> script_module option"
  stat :: "string \<Rightarrow> bool"
  page_load :: "string \<Rightarrow> load_result"
  inspect :: "string list \<Rightarrow> string"
  invalid_tag_message :: "string \<Rightarrow> string"
  ensure_imports :: "statement list \<Rightarrow> string list \<Rightarrow> string \<Rightarrow> (string list \<times> nat) \<times> statement list"
  store_import :: "statement list \<Rightarrow> string \<Rightarrow> (string \<times> nat) \<times> statement list"

section \<open>The route processor\<close>

text \<open>
  The sources hold two revisions of the processor for SvelteKit routes. The functions
  below are those of \<open>svelteKitProcessor\<close>, the revision that defines
  \<open>find_inline_queries\<close> and \<open>query_variable_fn\<close> itself, whose generated load
  function returns the \<open>inputs\<close> map and whose output the snapshots of the processor's
  tests show. Each function takes the state of the page and returns the new one; a
  function that can throw returns an outcome. Of the other revision,
  \<open>SvelteKitProcessor\<close>, the parts that the properties below speak about are embedded
  after these.

  \<open>add_load\<close> reads the hooks, the \<open>load\<close> function and the variable functions
  from \<open>page_info.exports\<close>, the exports that \<open>find_page_info\<close> reports. They are
  the exports of the route module only when the module exports a valid \<open>houdini_load\<close>
  list; in every other case \<open>find_page_info\<close> reports none. The properties below say
  which of the two they speak about.
\<close>

definition query_variable_fn :: "string \<Rightarrow> string" where
  "query_variable_fn nm = nm @ ''Variables''"

subsection \<open>Hook statements\<close>

text \<open>
  The hook statements. The source also hands the configuration to this function, which
  does not read it; the parameter is left out.
\<close>

definition load_hook_statements ::
  "string \<Rightarrow> expression \<Rightarrow> LoadTarget list \<Rightarrow> expression \<Rightarrow> expression \<Rightarrow> statement list" where
  "load_hook_statements hook request_context queries input_obj result_id =
     [ExpressionStatement
        (AwaitExpression
           (CallExpression
              (MemberExpression request_context (Identifier ''invokeLoadHook''))
              [ObjectExpression
                 ([ObjectProperty (Literal (LString ''variant''))
                     (StringLiteral (if hook = ''afterLoad'' then ''after'' else ''before'')),
                   ObjectProperty (Literal (LString ''hookFn'')) (Identifier hook)]
                  @ (if hook = ''afterLoad''
                     then [ObjectProperty (Literal (LString ''input'')) input_obj,
                           ObjectProperty (Literal (LString ''data''))
                             (ObjectExpression
                                (map (\<lambda>(i, query).
                                        ObjectProperty (StringLiteral (name query))
                                          (MemberExpression result_id (Literal (LNumber i))))
                                   (enumerate 0 queries)))]
                     else []))]))]"

subsection \<open>The load function\<close>

text \<open>
  The check of the variable functions, before anything is mutated: the loop over the
  queries carries the \<open>invalid\<close> flag and writes one message for each query that
  requires variables and whose function is not exported.
\<close>

definition missing_variable_fn_message :: "TransformPage \<Rightarrow> string \<Rightarrow> string" where
  "missing_variable_fn_message page variable_fn =
     ''error in '' @ filepath page @ '':'' @ [CHR 0x0A]
     @ ''could not find required variable function: '' @ variable_fn
     @ ''. maybe its not exported?'' @ [CHR 0x0A]"

fun verify_variable_fns ::
  "TransformPage \<Rightarrow> PageScriptInfo \<Rightarrow> LoadTarget list \<Rightarrow> bool \<times> state \<Rightarrow> bool \<times> state" where
  "verify_variable_fns page page_info [] (invalid, st) = (invalid, st)"
| "verify_variable_fns page page_info (query # rest) (invalid, st) =
     (let variable_fn = query_variable_fn (name query) in
      if variable_fn \<notin> set (exports page_info) \<and> variables query
      then verify_variable_fns page page_info rest
             (True, console_log (missing_variable_fn_message page variable_fn) st)
      else verify_variable_fns page page_info rest (invalid, st))"

text \<open>The two statements spliced into the load function for one query.\<close>

definition input_statement :: "PageScriptInfo \<Rightarrow> LoadTarget \<Rightarrow> statement" where
  "input_statement page_info query =
     ExpressionStatement
       (AssignmentExpression ''=''
          (MemberExpression (Identifier ''inputs'') (Literal (LString (name query))))
          (if query_variable_fn (name query) \<in> set (exports page_info)
           then CallExpression
                  (MemberExpression (Identifier ''houdini_context'') (Identifier ''computeInput''))
                  [ObjectExpression
                     [ObjectProperty (Literal (LString ''config'')) (Identifier ''houdiniConfig''),
                      ObjectProperty (Literal (LString ''variableFunction''))
                        (Identifier (query_variable_fn (name query))),
                      ObjectProperty (Literal (LString ''artifact''))
                        (MemberExpression (store_id query) (Literal (LString ''artifact'')))]]
           else ObjectExpression []))"

definition fetch_statement :: "bool \<Rightarrow> LoadTarget \<Rightarrow> statement" where
  "fetch_statement after_load query =
     ExpressionStatement
       (CallExpression (MemberExpression (Identifier ''promises'') (Identifier ''push''))
          [CallExpression (MemberExpression (store_id query) (Identifier ''fetch''))
             [ObjectExpression
                [ObjectProperty (Literal (LString ''variables''))
                   (MemberExpression (Identifier ''inputs'') (Literal (LString (name query)))),
                 ObjectProperty (Literal (LString ''event'')) (Identifier ''context''),
                 ObjectProperty (Literal (LString ''blocking'')) (BooleanLiteral after_load)]]])"

text \<open>
  The loop over the queries: both statements go in at the insertion index, which then
  moves past them.
\<close>

fun splice_queries ::
  "PageScriptInfo \<Rightarrow> bool \<Rightarrow> LoadTarget list \<Rightarrow> int \<times> statement list \<Rightarrow> int \<times> statement list" where
  "splice_queries page_info after_load [] (insert_index, body) = (insert_index, body)"
| "splice_queries page_info after_load (query # rest) (insert_index, body) =
     splice_queries page_info after_load rest
       (insert_index + 2,
        array_splice insert_index
          [input_statement page_info query, fetch_statement after_load query] body)"

definition await_statement :: statement where
  "await_statement =
     VariableDeclaration ''const''
       [(Identifier ''result'',
         AwaitExpression
           (CallExpression (MemberExpression (Identifier ''Promise'') (Identifier ''all''))
              [Identifier ''promises'']))]"

text \<open>The four statements the function declaration is built with.\<close>

definition context_declaration :: statement where
  "context_declaration =
     VariableDeclaration ''const''
       [(Identifier ''houdini_context'',
         NewExpression (Identifier ''RequestContext'') [Identifier ''context''])]"

definition inputs_declaration :: statement where
  "inputs_declaration =
     VariableDeclaration ''const'' [(Identifier ''inputs'', ObjectExpression [])]"

definition promises_declaration :: statement where
  "promises_declaration =
     VariableDeclaration ''const'' [(Identifier ''promises'', ArrayExpression [])]"

definition return_statement :: statement where
  "return_statement =
     ReturnStatement
       (ObjectExpression
          [SpreadElement
             (MemberExpression (Identifier ''houdini_context'') (Identifier ''returnValue'')),
           ObjectProperty (Identifier ''inputs'') (Identifier ''inputs'')])"

definition initial_body :: "statement list" where
  "initial_body =
     [context_declaration, inputs_declaration, promises_declaration, return_statement]"

text \<open>
  The body of the generated function after all the splices. The source pushes the
  declaration onto the script first and splices into its body afterwards; the script holds
  the declaration by reference, so what the script ends with is the body computed here.
\<close>

definition load_body :: "PageScriptInfo \<Rightarrow> LoadTarget list \<Rightarrow> statement list" where
  "load_body page_info queries =
     (let before_load = ''beforeLoad'' \<in> set (exports page_info);
          after_load = ''afterLoad'' \<in> set (exports page_info);
          request_context = Identifier ''houdini_context'';
          input_obj = Identifier ''inputs'';
          resolved_promises = Identifier ''result'';
          (insert_index, body1) = splice_queries page_info after_load queries (3, initial_body);
          body2 = array_splice insert_index [await_statement] body1;
          body3 = (if before_load
                   then array_splice 1
                          (load_hook_statements ''beforeLoad'' request_context queries
                             input_obj resolved_promises) body2
                   else body2);
          body4 = (if after_load
                   then array_splice (int (length body3) - 1)
                          (load_hook_statements ''afterLoad'' request_context queries
                             input_obj resolved_promises) body3
                   else body3)
      in body4)"

definition add_load ::
  "env \<Rightarrow> TransformPage \<Rightarrow> LoadTarget list \<Rightarrow> PageScriptInfo \<Rightarrow> state \<Rightarrow> state" where
  "add_load e page queries page_info st =
     (if ''load'' \<in> set (exports page_info) then st
      else
        (let (invalid, st1) = verify_variable_fns page page_info queries (False, st) in
         if invalid then st1
         else
           (let (imported, body) =
                  ensure_imports e (script st1) [''RequestContext'']
                    ''$houdini/runtime/lib/network'';
                preload_fn =
                  FunctionDeclaration (Identifier ''load'') [Identifier ''context'']
                    (BlockStatement (load_body page_info queries)) True
            in st1\<lparr>script := body @ [ExportNamedDeclaration preload_fn]\<rparr>)))"


subsection \<open>Inline queries of the component\<close>

text \<open>
  Modelled from the spec: \<open>walk_graphql_tags\<close> is imported from the walk module, which
  is not among the sources. The spec (4.2): the walker visits every embedded
  query-language literal of the parsed document and parses its text; a literal whose text
  does not parse is skipped with a diagnostic and the other literals are still processed.
  The \<open>where\<close> callback filters the parsed literals; \<open>tag\<close> is called on each one that
  passes, with the parsed document and the literal's parent. The callback of
  \<open>find_inline_queries\<close> pushes onto a list it closes over, so the walker threads an
  accumulator through the calls, and a callback that throws ends the walk. The list of
  dependencies the walker returns only feeds \<open>page.addWatchFile\<close> and is left out.
\<close>

fun walk_graphql_tags ::
  "env \<Rightarrow> EmbeddedTag list \<Rightarrow> (DocumentNode \<Rightarrow> bool)
     \<Rightarrow> (DocumentNode \<Rightarrow> string \<Rightarrow> 'a \<Rightarrow> error + 'a) \<Rightarrow> 'a \<times> state \<Rightarrow> 'a outcome" where
  "walk_graphql_tags e [] where_fn tag_fn (acc, st) = Inr (acc, st)"
| "walk_graphql_tags e (literal # rest) where_fn tag_fn (acc, st) =
     (case graphql_parse e (tag_text literal) of
        None \<Rightarrow>
          walk_graphql_tags e rest where_fn tag_fn
            (acc, console_log (invalid_tag_message e (tag_text literal)) st)
      | Some parsed \<Rightarrow>
          if where_fn parsed
          then (case tag_fn parsed (parent_type literal) acc of
                  Inl err \<Rightarrow> Inl (err, st)
                | Inr acc' \<Rightarrow> walk_graphql_tags e rest where_fn tag_fn (acc', st))
          else walk_graphql_tags e rest where_fn tag_fn (acc, st))"

text \<open>The two callbacks \<open>find_inline_queries\<close> hands to the walker.\<close>

definition inline_query_where :: "DocumentNode \<Rightarrow> bool" where
  "inline_query_where tag = list_ex is_query_definition tag"

text \<open>
  \<open>operation.name!.value\<close>: reading \<open>value\<close> of a name that is not there throws, and so
  does reading \<open>kind\<close> of the first definition of an empty document.
\<close>

definition inline_query_tag :: "DocumentNode \<Rightarrow> string \<Rightarrow> QueryInfo list \<Rightarrow> error + QueryInfo list" where
  "inline_query_tag parsedDocument parent queries =
     (case parsedDocument of
        [] \<Rightarrow> Inl TypeError
      | operation # _ \<Rightarrow>
          if is_query_definition operation \<and> parent = ''CallExpression''
          then (case operation of
                  OperationDefinition _ (Some nm) _ \<Rightarrow>
                    Inr (queries @ [\<lparr>name = nm, variables = operation_requires_variables operation\<rparr>])
                | _ \<Rightarrow> Inl TypeError)
          else Inr queries)"

text \<open>The final \<open>queries.map\<close>: a store import for every query found, in order.\<close>

fun import_stores :: "env \<Rightarrow> QueryInfo list \<Rightarrow> statement list \<Rightarrow> LoadTarget list \<times> statement list" where
  "import_stores e [] body = ([], body)"
| "import_stores e (query # rest) body =
     (let ((local_id, added), body1) = store_import e body (name query);
          (targets, body2) = import_stores e rest body1
      in (\<lparr>name = name query, variables = variables query, store_id = Identifier local_id\<rparr> # targets,
          body2))"

text \<open>\<open>!contents\<close> holds for \<open>null\<close> and for the empty string.\<close>

definition find_inline_queries :: "env \<Rightarrow> TransformPage \<Rightarrow> state \<Rightarrow> LoadTarget list outcome" where
  "find_inline_queries e page st =
     (let page_path = routePagePath (config page) (filepath page) in
      case readFile e page_path of
        None \<Rightarrow> Inr ([], st)
      | Some contents \<Rightarrow>
          if contents = [] then Inr ([], st)
          else (case parseSvelte e contents of
                  None \<Rightarrow> Inl (SvelteParseError, st)
                | Some parsed \<Rightarrow>
                    (case walk_graphql_tags e parsed inline_query_where inline_query_tag ([], st) of
                       Inl err \<Rightarrow> Inl err
                     | Inr (queries, st1) \<Rightarrow>
                         (let (targets, body) = import_stores e queries (script st1)
                          in Inr (targets, st1\<lparr>script := body\<rparr>)))))"

subsection \<open>The page query\<close>

definition find_page_query :: "env \<Rightarrow> TransformPage \<Rightarrow> state \<Rightarrow> LoadTarget option outcome" where
  "find_page_query e page st =
     (let page_query_path = pageQueryPath (config page) (filepath page) in
      case readFile e page_query_path of
        None \<Rightarrow> Inr (None, st)
      | Some contents \<Rightarrow>
          if contents = [] then Inr (None, st)
          else (case graphql_parse e contents of
                  None \<Rightarrow> Inl (GraphQLError, st)
                | Some parsed \<Rightarrow>
                    (case find is_query_definition parsed of
                       None \<Rightarrow> Inr (None, console_log ''page.gql must contain a query'' st)
                     | Some definition \<Rightarrow>
                         (case definition of
                            OperationDefinition _ (Some nm) _ \<Rightarrow>
                              (let ((local_id, added), body) = store_import e (script st) nm
                               in Inr (Some \<lparr>name = nm,
                                              variables = operation_requires_variables definition,
                                              store_id = Identifier local_id\<rparr>,
                                       st\<lparr>script := body\<rparr>))
                          | _ \<Rightarrow> Inl (TypeError, st)))))"

subsection \<open>The exports of the route module\<close>

definition nil :: PageScriptInfo where
  "nil = \<lparr>load = Some [], exports = []\<rparr>"

text \<open>
  The loop over \<open>module.houdini_load\<close>; \<open>None\<close> is the early \<open>return nil\<close>.
  The loop reads \<open>store.name\<close> first, which throws for \<open>null\<close> and \<open>undefined\<close>
  and gives \<open>undefined\<close> for a string or another primitive; \<open>seen\<close> holds the names
  of the stores accepted so far, so \<open>undefined\<close> is not in it. Then it asks
  \<open>'kind' in store\<close>, which throws for every primitive. Nothing catches these errors.
\<close>

fun referenced_stores ::
  "env \<Rightarrow> load_entry list \<Rightarrow> QueryInfo list \<Rightarrow> string list \<Rightarrow> state
     \<Rightarrow> QueryInfo list option outcome" where
  "referenced_stores e [] load_list seen st = Inr (Some load_list, st)"
| "referenced_stores e (NullEntry # rest) load_list seen st = Inl (TypeError, st)"
| "referenced_stores e (StringEntry text # rest) load_list seen st = Inl (TypeError, st)"
| "referenced_stores e (PrimitiveEntry truthy # rest) load_list seen st = Inl (TypeError, st)"
| "referenced_stores e (ObjectEntry store # rest) load_list seen st =
     (if name store \<in> set seen
      then Inr (None, console_log ''a store can only appear once'' st)
      else (case kind store of
              None \<Rightarrow> Inr (None, console_log ''you must pass stores to houdini_load'' st)
            | Some k \<Rightarrow>
                if k \<noteq> CompiledQueryKind e
                then Inr (None, console_log ''you must pass query stores to houdini_load'' st)
                else referenced_stores e rest
                       (load_list @ [\<lparr>name = name store, variables = variables store\<rparr>])
                       (seen @ [name store]) st))"

definition find_page_info :: "env \<Rightarrow> TransformPage \<Rightarrow> state \<Rightarrow> PageScriptInfo outcome" where
  "find_page_info e page st =
     (if NODE_ENV e = ''test''
      then (case mock_page_info page of None \<Rightarrow> Inr (nil, st) | Some info \<Rightarrow> Inr (info, st))
      else (case import_module e (filepath page) of
              None \<Rightarrow> Inr (nil, st)
            | Some module \<Rightarrow>
                (case houdini_load module of
                   NoExport \<Rightarrow> Inr (nil, st)
                 | SingleEntry entry \<Rightarrow>
                     if falsy entry then Inr (nil, st)
                     else Inr (nil, console_log ''houdini_load must be a list'' st)
                 | EntryArray stores \<Rightarrow>
                     (case referenced_stores e stores [] [] st of
                        Inl failure \<Rightarrow> Inl failure
                      | Inr (None, st1) \<Rightarrow> Inr (nil, st1)
                      | Inr (Some load_list, st1) \<Rightarrow>
                          Inr (\<lparr>load = Some load_list, exports = keys module\<rparr>, st1)))))"

subsection \<open>The route component\<close>

text \<open>\<open>Array.prototype.findIndex\<close>: the first index whose element satisfies the predicate, or -1.\<close>

fun findIndex :: "('a \<Rightarrow> bool) \<Rightarrow> 'a list \<Rightarrow> int" where
  "findIndex P [] = - 1"
| "findIndex P (x # xs) =
     (if P x then 0 else (let i = findIndex P xs in if i = - 1 then - 1 else i + 1))"

fun is_import :: "statement \<Rightarrow> bool" where
  "is_import (ImportDeclaration _ _) = True"
| "is_import _ = False"

text \<open>
  The loop that imports the store of every query: it moves the insertion index by what
  each import added and records the identifier under the query's name.
\<close>

fun import_query_stores ::
  "env \<Rightarrow> LoadTarget list \<Rightarrow> int \<times> (string \<rightharpoonup> string) \<times> statement list
     \<Rightarrow> int \<times> (string \<rightharpoonup> string) \<times> statement list" where
  "import_query_stores e [] acc = acc"
| "import_query_stores e (query # rest) (insert_index, store_ids, body) =
     (let ((local_id, added), body1) = store_import e body (name query)
      in import_query_stores e rest
           (insert_index + int added, store_ids(name query \<mapsto> local_id), body1))"

definition reactive_fetch :: "(string \<rightharpoonup> string) \<Rightarrow> LoadTarget \<Rightarrow> statement" where
  "reactive_fetch store_ids query =
     LabeledStatement (Identifier ''$'')
       (ExpressionStatement
          (LogicalExpression ''&&'' (Identifier ''browser'')
             (CallExpression
                (MemberExpression
                   (Identifier (case store_ids (name query) of
                                  None \<Rightarrow> ''undefined'' | Some local_id \<Rightarrow> local_id))
                   (Identifier ''fetch''))
                [ObjectExpression
                   [ObjectProperty (Identifier ''context'')
                      (Identifier ''_houdini_context_DO_NOT_USE''),
                    ObjectProperty (Identifier ''variables'')
                      (MemberExpression (Identifier ''_houdini_inputs'')
                         (Literal (LString (name query))))]])))"

definition process_component ::
  "env \<Rightarrow> TransformPage \<Rightarrow> LoadTarget list \<Rightarrow> PageScriptInfo \<Rightarrow> state \<Rightarrow> state" where
  "process_component e page queries page_info st =
     (let found = findIndex (\<lambda>statement. \<not> is_import statement) (script st);
          insert_index0 = (if found = - 1 then int (length (script st)) else found);
          ((ids1, added1), body1) =
            ensure_imports e (script st) [''getHoudiniContext''] ''$houdini/runtime/lib/context'';
          ((ids2, added2), body2) = ensure_imports e body1 [''browser''] ''$app/env'';
          (insert_index, store_ids, body3) =
            import_query_stores e queries
              (insert_index0 + int added1 + int added2, Map.empty, body2);
          body4 =
            array_splice insert_index
              [LabeledStatement (Identifier ''$'')
                 (ExpressionStatement
                    (AssignmentExpression ''='' (Identifier ''_houdini_inputs'')
                       (MemberExpression
                          (MemberExpression (Identifier ''$$props'') (Identifier ''data''))
                          (Identifier ''inputs''))))]
              body3;
          body5 =
            array_splice (insert_index + 1)
              [VariableDeclaration ''const''
                 [(Identifier ''_houdini_context_DO_NOT_USE'',
                   CallExpression (Identifier ''getHoudiniContext'') [])]]
              body4;
          body6 = array_splice (insert_index + 2) (map (reactive_fetch store_ids) queries) body5
      in st\<lparr>script := body6\<rparr>)"

subsection \<open>The processor\<close>

text \<open>
  The first half of the processor collects the queries of the route. The source starts
  \<open>find_page_query\<close>, \<open>find_inline_queries\<close> and \<open>find_page_info\<close> together and awaits
  them jointly; each touches the script only through the store import helper and the
  three do not read each other's results, so they are run here one after the other, in the
  order of the awaited list. The first failure is the failure of the whole processor, and
  the state it carries is the state of the page under this order.
\<close>

definition houdini_load_targets :: "PageScriptInfo \<Rightarrow> LoadTarget list" where
  "houdini_load_targets page_info =
     map (\<lambda>(i, target).
            \<lparr>name = name target, variables = variables target,
             store_id = MemberExpression (Identifier ''houdini_load'') (Literal (LNumber i))\<rparr>)
       (enumerate 0 (case load page_info of None \<Rightarrow> [] | Some targets \<Rightarrow> targets))"

definition collect_queries ::
  "env \<Rightarrow> TransformPage \<Rightarrow> state \<Rightarrow> (LoadTarget list \<times> PageScriptInfo) outcome" where
  "collect_queries e page st =
     (case find_page_query e page st of
        Inl failure \<Rightarrow> Inl failure
      | Inr (page_query, st1) \<Rightarrow>
          (case find_inline_queries e page st1 of
             Inl failure \<Rightarrow> Inl failure
           | Inr (inline_queries, st2) \<Rightarrow>
               (case find_page_info e page st2 of
                  Inl failure \<Rightarrow> Inl failure
                | Inr (page_info, st3) \<Rightarrow>
                    (let queries = inline_queries
                                   @ (case page_query of None \<Rightarrow> [] | Some target \<Rightarrow> [target])
                                   @ houdini_load_targets page_info
                     in Inr ((queries, page_info), st3)))))"

definition svelteKitProcessor :: "env \<Rightarrow> Config \<Rightarrow> TransformPage \<Rightarrow> state \<Rightarrow> (error \<times> state) + state" where
  "svelteKitProcessor e cfg page st =
     (if framework (config page) \<noteq> ''kit'' then Inr st
      else if \<not> isRoute (config page) (filepath page)
              \<and> \<not> isRouteScript (config page) (filepath page) then Inr st
      else (case collect_queries e page st of
              Inl failure \<Rightarrow> Inl failure
            | Inr ((queries, page_info), st1) \<Rightarrow>
                if isRoute (config page) (filepath page)
                then Inr (process_component e page queries page_info st1)
                else if isRouteScript (config page) (filepath page)
                then Inr (add_load e page queries page_info st1)
                else Inr st1))"

section \<open>The other revision of the processor\<close>

text \<open>
  \<open>SvelteKitProcessor\<close> differs from the processor above in what it generates and in
  how it resolves the exports of the route module. Two of its parts are embedded here:
  the entry of its \<open>add_load\<close>, up to the point where the mutation of the script
  starts, and its \<open>find_page_info\<close>. Its \<open>find_page_query\<close> and its merge of the three
  query sources read as those above.
\<close>

subsection \<open>The entry of add_load\<close>

text \<open>
  The check of the variable functions in this revision writes three lines for each query
  that requires variables and whose function is not exported: an empty line, the printed
  list of exports, and the message, which has no line break at its end.

  Modelled from the spec: this revision imports \<open>query_variable_fn\<close> from the query
  module, which is not among the sources. The spec (4.3) derives the name of the function
  as the operation name followed by \<open>Variables\<close>, which is what \<open>query_variable_fn\<close>
  above computes.
\<close>

definition SvelteKitProcessor_message :: "TransformPage \<Rightarrow> string \<Rightarrow> string" where
  "SvelteKitProcessor_message page variable_fn =
     ''error in '' @ filepath page @ '':'' @ [CHR 0x0A]
     @ ''could not find required variable function: '' @ variable_fn
     @ ''. maybe its not exported?''"

fun SvelteKitProcessor_verify_variable_fns ::
  "env \<Rightarrow> TransformPage \<Rightarrow> PageScriptInfo \<Rightarrow> LoadTarget list \<Rightarrow> bool \<times> state \<Rightarrow> bool \<times> state" where
  "SvelteKitProcessor_verify_variable_fns e page page_info [] (invalid, st) = (invalid, st)"
| "SvelteKitProcessor_verify_variable_fns e page page_info (query # rest) (invalid, st) =
     (let variable_fn = query_variable_fn (name query) in
      if variable_fn \<notin> set (exports page_info) \<and> variables query
      then SvelteKitProcessor_verify_variable_fns e page page_info rest
             (True,
              console_log (SvelteKitProcessor_message page variable_fn)
                (console_log (inspect e (exports page_info)) (console_log '''' st)))
      else SvelteKitProcessor_verify_variable_fns e page page_info rest (invalid, st))"

text \<open>
  The function up to its second \<open>return\<close>. What follows in the source, the imports and
  the construction of the load function, is the argument \<open>synthesize\<close>: it runs only when
  the module has no \<open>load\<close> and no variable function is missing.
\<close>

definition SvelteKitProcessor_add_load ::
  "env \<Rightarrow> TransformPage \<Rightarrow> LoadTarget list \<Rightarrow> PageScriptInfo \<Rightarrow> (state \<Rightarrow> state) \<Rightarrow> state \<Rightarrow> state" where
  "SvelteKitProcessor_add_load e page queries page_info synthesize st =
     (if ''load'' \<in> set (exports page_info) then st
      else
        (let (invalid, st1) =
               SvelteKitProcessor_verify_variable_fns e page page_info queries (False, st) in
         if invalid then st1 else synthesize st1))"

subsection \<open>The exports of the route module\<close>

text \<open>
  \<open>String.prototype.includes\<close> and \<open>String.prototype.replace\<close> with a string pattern,
  which replaces the first occurrence.
\<close>

fun string_includes :: "string \<Rightarrow> string \<Rightarrow> bool" where
  "string_includes [] needle = (needle = [])"
| "string_includes (c # cs) needle =
     (take (length needle) (c # cs) = needle \<or> string_includes cs needle)"

fun replace_first :: "string \<Rightarrow> string \<Rightarrow> string \<Rightarrow> string" where
  "replace_first [] pattern replacement = (if pattern = [] then replacement else [])"
| "replace_first (c # cs) pattern replacement =
     (if take (length pattern) (c # cs) = pattern
      then replacement @ drop (length pattern) (c # cs)
      else c # replace_first cs pattern replacement)"

text \<open>
  The loop over the documents of \<open>houdini_load\<close>; \<open>None\<close> is the early \<open>return nil\<close>.
  A string is parsed: one that does not parse is skipped with a message, one without a
  query ends the loop, and so does a name seen before among the strings. Every other entry
  is asked for its \<open>kind\<close>: reading it throws for \<open>null\<close> and \<open>undefined\<close>; an entry
  whose kind is not the compiled-query kind is skipped with a message, and a compiled
  query is taken without a look at \<open>seen\<close>.
\<close>

fun SvelteKitProcessor_documents ::
  "env \<Rightarrow> load_entry list \<Rightarrow> QueryInfo list \<Rightarrow> string list \<Rightarrow> state
     \<Rightarrow> QueryInfo list option outcome" where
  "SvelteKitProcessor_documents e [] load_list seen st = Inr (Some load_list, st)"
| "SvelteKitProcessor_documents e (StringEntry document # rest) load_list seen st =
     (case graphql_parse e document of
        None \<Rightarrow>
          SvelteKitProcessor_documents e rest load_list seen
            (console_log ''we got a string that isn't a graphql query'' st)
      | Some parsed \<Rightarrow>
          (case find is_query_definition parsed of
             None \<Rightarrow> Inr (None, console_log ''houdini_load must contain store references'' st)
           | Some query \<Rightarrow>
               (case query of
                  OperationDefinition _ (Some nm) _ \<Rightarrow>
                    if nm \<in> set seen
                    then Inr (None, console_log ''a store can only appear once'' st)
                    else SvelteKitProcessor_documents e rest
                           (load_list
                            @ [\<lparr>name = nm, variables = operation_requires_variables query\<rparr>])
                           (seen @ [nm]) st
                | _ \<Rightarrow> Inl (TypeError, st))))"
| "SvelteKitProcessor_documents e (NullEntry # rest) load_list seen st = Inl (TypeError, st)"
| "SvelteKitProcessor_documents e (PrimitiveEntry truthy # rest) load_list seen st =
     SvelteKitProcessor_documents e rest load_list seen
       (console_log ''you must pass query stores to houdini_load'' st)"
| "SvelteKitProcessor_documents e (ObjectEntry document # rest) load_list seen st =
     (if kind document \<noteq> Some (CompiledQueryKind e)
      then SvelteKitProcessor_documents e rest load_list seen
             (console_log ''you must pass query stores to houdini_load'' st)
      else SvelteKitProcessor_documents e rest
             (load_list @ [\<lparr>name = name document, variables = variables document\<rparr>]) seen st)"

text \<open>
  The function writes the keys of the module into \<open>nil\<close> before it looks at
  \<open>houdini_load\<close>, so every result from there on carries the exports. An error of the
  load is printed unless its text holds \<open>ERR_MODULE_NOT_FOUND\<close>.
\<close>

definition SvelteKitProcessor_find_page_info ::
  "env \<Rightarrow> TransformPage \<Rightarrow> state \<Rightarrow> PageScriptInfo outcome" where
  "SvelteKitProcessor_find_page_info e page st =
     (if NODE_ENV e = ''test''
      then (case mock_page_info page of None \<Rightarrow> Inr (nil, st) | Some info \<Rightarrow> Inr (info, st))
      else if \<not> isRouteScript (config page) (filepath page)
              \<and> \<not> isRoute (config page) (filepath page) then Inr (nil, st)
      else
        (let data_path = routeDataPath (config page) (filepath page);
             route_path = (if stat e data_path then data_path
                           else replace_first data_path ''.js'' ''.ts'')
         in case page_load e route_path of
              LoadFailed text \<Rightarrow>
                Inr (nil, if string_includes text ''ERR_MODULE_NOT_FOUND'' then st
                          else console_log text st)
            | Loaded module \<Rightarrow>
                (let with_exports = nil\<lparr>exports := keys module\<rparr> in
                 case houdini_load module of
                   NoExport \<Rightarrow> Inr (with_exports, st)
                 | SingleEntry document \<Rightarrow>
                     if falsy document then Inr (with_exports, st)
                     else
                       (case SvelteKitProcessor_documents e [document] [] [] st of
                          Inl failure \<Rightarrow> Inl failure
                        | Inr (None, st1) \<Rightarrow> Inr (with_exports, st1)
                        | Inr (Some load_list, st1) \<Rightarrow>
                            Inr (with_exports\<lparr>load := Some load_list\<rparr>, st1))
                 | EntryArray documents \<Rightarrow>
                     (case SvelteKitProcessor_documents e documents [] [] st of
                        Inl failure \<Rightarrow> Inl failure
                      | Inr (None, st1) \<Rightarrow> Inr (with_exports, st1)
                      | Inr (Some load_list, st1) \<Rightarrow>
                          Inr (with_exports\<lparr>load := Some load_list\<rparr>, st1)))))"

section \<open>Reading the generated code\<close>

text \<open>
  The properties below speak about the calls the generated function makes. These
  functions list every call expression of a syntax tree, outermost first and in source
  order.
\<close>

fun expression_calls :: "expression \<Rightarrow> expression list"
  and property_calls :: "property \<Rightarrow> expression list" where
  "expression_calls (Identifier _) = []"
| "expression_calls (Literal _) = []"
| "expression_calls (StringLiteral _) = []"
| "expression_calls (BooleanLiteral _) = []"
| "expression_calls (MemberExpression object property) =
     expression_calls object @ expression_calls property"
| "expression_calls (CallExpression callee arguments) =
     CallExpression callee arguments
     # expression_calls callee @ concat (map expression_calls arguments)"
| "expression_calls (NewExpression callee arguments) =
     expression_calls callee @ concat (map expression_calls arguments)"
| "expression_calls (ArrayExpression elements) = concat (map expression_calls elements)"
| "expression_calls (ObjectExpression properties) = concat (map property_calls properties)"
| "expression_calls (AssignmentExpression _ left right) =
     expression_calls left @ expression_calls right"
| "expression_calls (LogicalExpression _ left right) =
     expression_calls left @ expression_calls right"
| "expression_calls (AwaitExpression argument) = expression_calls argument"
| "property_calls (ObjectProperty key val) = expression_calls key @ expression_calls val"
| "property_calls (SpreadElement argument) = expression_calls argument"

fun statement_calls :: "statement \<Rightarrow> expression list" where
  "statement_calls (VariableDeclaration _ declarators) =
     concat (map (\<lambda>(ident, init). expression_calls ident @ expression_calls init) declarators)"
| "statement_calls (ExpressionStatement e) = expression_calls e"
| "statement_calls (ReturnStatement e) = expression_calls e"
| "statement_calls (LabeledStatement _ body) = statement_calls body"
| "statement_calls (BlockStatement body) = concat (map statement_calls body)"
| "statement_calls (FunctionDeclaration _ _ body _) = statement_calls body"
| "statement_calls (ExportNamedDeclaration declaration) = statement_calls declaration"
| "statement_calls (ImportDeclaration _ _) = []"
| "statement_calls (SourceStatement _) = []"

text \<open>A call of the method \<open>method\<close> on some object: \<open>object.method(...)\<close>.\<close>

fun is_method_call :: "string \<Rightarrow> expression \<Rightarrow> bool" where
  "is_method_call method (CallExpression (MemberExpression _ (Identifier m)) _) = (m = method)"
| "is_method_call method _ = False"

definition method_calls :: "string \<Rightarrow> statement list \<Rightarrow> expression list" where
  "method_calls method body = filter (is_method_call method) (concat (map statement_calls body))"

text \<open>
  The value a call passes under the key \<open>key\<close> of its single object argument, as in
  \<open>store.fetch({ "blocking": false })\<close>.
\<close>

fun property_value :: "string \<Rightarrow> property list \<Rightarrow> expression option" where
  "property_value key [] = None"
| "property_value key (ObjectProperty (Literal (LString k)) v # rest) =
     (if k = key then Some v else property_value key rest)"
| "property_value key (_ # rest) = property_value key rest"

fun call_option :: "string \<Rightarrow> expression \<Rightarrow> expression option" where
  "call_option key (CallExpression _ [ObjectExpression properties]) = property_value key properties"
| "call_option key _ = None"

text \<open>
  The body of the load function the script exports in its last statement, where
  \<open>add_load\<close> pushes it.
\<close>

fun exported_load :: "statement \<Rightarrow> statement list option" where
  "exported_load (ExportNamedDeclaration
                    (FunctionDeclaration (Identifier nm) params (BlockStatement body) async)) =
     (if nm = ''load'' \<and> async then Some body else None)"
| "exported_load _ = None"

definition generated_load :: "state \<Rightarrow> statement list option" where
  "generated_load st = (if script st = [] then None else exported_load (last (script st)))"

text \<open>
  The store references the processor resolves: an identifier for a page query or an
  inline query, \<open>houdini_load[i]\<close> for an entry of the exported list.
\<close>

fun store_reference :: "expression \<Rightarrow> bool" where
  "store_reference (Identifier _) = True"
| "store_reference (MemberExpression (Identifier _) (Literal _)) = True"
| "store_reference _ = False"

text \<open>
  The statements of the generated function that belong to the queries, the hook
  statements as \<open>add_load\<close> requests them, and the call a query's fetch statement pushes.
\<close>

definition query_statements :: "PageScriptInfo \<Rightarrow> bool \<Rightarrow> LoadTarget list \<Rightarrow> statement list" where
  "query_statements page_info after_load queries =
     concat (map (\<lambda>query. [input_statement page_info query, fetch_statement after_load query])
               queries)"

definition before_hook :: "LoadTarget list \<Rightarrow> statement list" where
  "before_hook queries =
     load_hook_statements ''beforeLoad'' (Identifier ''houdini_context'') queries
       (Identifier ''inputs'') (Identifier ''result'')"

definition after_hook :: "LoadTarget list \<Rightarrow> statement list" where
  "after_hook queries =
     load_hook_statements ''afterLoad'' (Identifier ''houdini_context'') queries
       (Identifier ''inputs'') (Identifier ''result'')"

text \<open>A query target misses its variable function.\<close>

definition missing_variable_fn :: "PageScriptInfo \<Rightarrow> LoadTarget \<Rightarrow> bool" where
  "missing_variable_fn page_info query =
     (query_variable_fn (name query) \<notin> set (exports page_info) \<and> variables query)"


text \<open>
  The call a query's fetch statement pushes, the call of the after hook, and the exported
  declaration \<open>add_load\<close> pushes onto the script.
\<close>

definition fetch_call :: "bool \<Rightarrow> LoadTarget \<Rightarrow> expression" where
  "fetch_call after_load query =
     CallExpression (MemberExpression (store_id query) (Identifier ''fetch''))
       [ObjectExpression
          [ObjectProperty (Literal (LString ''variables''))
             (MemberExpression (Identifier ''inputs'') (Literal (LString (name query)))),
           ObjectProperty (Literal (LString ''event'')) (Identifier ''context''),
           ObjectProperty (Literal (LString ''blocking'')) (BooleanLiteral after_load)]]"

definition load_declaration :: "PageScriptInfo \<Rightarrow> LoadTarget list \<Rightarrow> statement" where
  "load_declaration page_info queries =
     ExportNamedDeclaration
       (FunctionDeclaration (Identifier ''load'') [Identifier ''context'']
          (BlockStatement (load_body page_info queries)) True)"





text \<open>
  The script after the store import helper has been called for each of the names in
  turn. This is all that query discovery does to the script.
\<close>

fun store_imports :: "env \<Rightarrow> string list \<Rightarrow> statement list \<Rightarrow> statement list" where
  "store_imports e [] body = body"
| "store_imports e (nm # rest) body = store_imports e rest (snd (store_import e body nm))"

section \<open>The specification's wording\<close>

text \<open>
  The merge order as the specification words it: the page query first, then the inline
  queries, then the entries of the exported list.
\<close>

definition spec_merge_order ::
  "LoadTarget option \<Rightarrow> LoadTarget list \<Rightarrow> PageScriptInfo \<Rightarrow> LoadTarget list" where
  "spec_merge_order page_query inline_queries page_info =
     (case page_query of None \<Rightarrow> [] | Some target \<Rightarrow> [target])
     @ inline_queries @ houdini_load_targets page_info"








section \<open>A sample project\<close>

text \<open>
  A small project to run the processor on. Its import helpers behave as the snapshots of
  the processor's tests print them: an import goes in front of the script unless the
  script has it already, and the store of a query \<open>Foo\<close> is imported as \<open>GQL_Foo\<close>
  from \<open>$houdini/stores/Foo\<close>. Its query parser knows six documents, one of them an
  anonymous query, and rejects every other text. The files, the parsed components and the
  route modules are arguments.
\<close>

definition sample_ensure_imports ::
  "statement list \<Rightarrow> string list \<Rightarrow> string \<Rightarrow> (string list \<times> nat) \<times> statement list" where
  "sample_ensure_imports body names source =
     (if ImportDeclaration names source \<in> set body then ((names, 0), body)
      else ((names, 1), ImportDeclaration names source # body))"

definition sample_store_import :: "statement list \<Rightarrow> string \<Rightarrow> (string \<times> nat) \<times> statement list" where
  "sample_store_import body nm =
     (let ((ids, added), body1) =
            sample_ensure_imports body [''GQL_'' @ nm] (''$houdini/stores/'' @ nm)
      in ((''GQL_'' @ nm, added), body1))"

definition sample_parse :: "string \<Rightarrow> DocumentNode option" where
  "sample_parse =
     map_of
       [(''query Foo { viewer { id } }'', [OperationDefinition OpQuery (Some ''Foo'') []]),
        (''query { viewer { id } }'', [OperationDefinition OpQuery None []]),
        (''query Bar($id: ID!) { node(id: $id) { id } }'',
         [OperationDefinition OpQuery (Some ''Bar'') [\<lparr>non_null = True, has_default = False\<rparr>]]),
        (''query Baz { version }'', [OperationDefinition OpQuery (Some ''Baz'') []]),
        (''mutation Like { like }'', [OperationDefinition OpMutation (Some ''Like'') []]),
        (''fragment UserInfo on User { id }'', [FragmentDefinition ''UserInfo''])]"

definition sample_env ::
  "(string \<rightharpoonup> string) \<Rightarrow> (string \<rightharpoonup> EmbeddedTag list) \<Rightarrow> (string \<rightharpoonup> script_module) \<Rightarrow> env" where
  "sample_env files components modules =
     \<lparr>NODE_ENV = ''production'',
      CompiledQueryKind = ''HoudiniQuery'',
      readFile = files,
      graphql_parse = sample_parse,
      parseSvelte = components,
      import_module = modules,
      stat = (\<lambda>path. modules path \<noteq> None),
      page_load =
        (\<lambda>path. case modules path of
                  None \<Rightarrow> LoadFailed ''Error [ERR_MODULE_NOT_FOUND]: Cannot find module''
                | Some module \<Rightarrow> Loaded module),
      inspect = (\<lambda>names. ''[ '' @ concat (map (\<lambda>nm. nm @ '' '') names) @ '']''),
      invalid_tag_message = (\<lambda>text. ''could not parse: '' @ text),
      ensure_imports = sample_ensure_imports,
      store_import = sample_store_import\<rparr>"

definition sample_config :: Config where
  "sample_config =
     \<lparr>framework = ''kit'',
      isRoute = (\<lambda>path. path = ''src/routes/+page.svelte''),
      isRouteScript = (\<lambda>path. path = ''src/routes/+page.js''),
      routePagePath = (\<lambda>path. ''src/routes/+page.svelte''),
      pageQueryPath = (\<lambda>path. ''src/routes/+page.gql''),
      routeDataPath = (\<lambda>path. ''src/routes/+page.js'')\<rparr>"

definition sample_page :: TransformPage where
  "sample_page =
     \<lparr>config = sample_config, filepath = ''src/routes/+page.js'', mock_page_info = None\<rparr>"

definition sample_state :: state where
  "sample_state = \<lparr>script = [SourceStatement ''const started = Date.now()''], console = []\<rparr>"

text \<open>
  A route of the sample project is given by the embedded literals of its component and by
  its route module, if it has one. These routes have no page query file.
\<close>

definition sample_route :: "EmbeddedTag list \<Rightarrow> script_module option \<Rightarrow> env" where
  "sample_route literals module =
     sample_env [''src/routes/+page.svelte'' \<mapsto> ''<script>...</script>'']
       [''<script>...</script>'' \<mapsto> literals]
       (case module of
          None \<Rightarrow> Map.empty
        | Some m \<Rightarrow> [''src/routes/+page.js'' \<mapsto> m])"

definition foo_literal :: EmbeddedTag where
  "foo_literal = \<lparr>tag_text = ''query Foo { viewer { id } }'', parent_type = ''CallExpression''\<rparr>"

definition baz_literal :: EmbeddedTag where
  "baz_literal = \<lparr>tag_text = ''query Baz { version }'', parent_type = ''CallExpression''\<rparr>"

definition bar_literal :: EmbeddedTag where
  "bar_literal =
     \<lparr>tag_text = ''query Bar($id: ID!) { node(id: $id) { id } }'',
      parent_type = ''CallExpression''\<rparr>"


definition mutation_literal :: EmbeddedTag where
  "mutation_literal = \<lparr>tag_text = ''mutation Like { like }'', parent_type = ''CallExpression''\<rparr>"


definition bar_store :: GraphQLTagResult where
  "bar_store = \<lparr>name = ''Bar'', variables = True, kind = Some ''HoudiniQuery''\<rparr>"



text \<open>
  Two inline queries and a module that exports \<open>afterLoad\<close> and nothing else.
\<close>

definition after_hook_module :: script_module where
  "after_hook_module = \<lparr>keys = [''afterLoad''], houdini_load = NoExport\<rparr>"

definition after_hook_only_route :: env where
  "after_hook_only_route = sample_route [foo_literal, baz_literal] (Some after_hook_module)"




definition own_load_module :: script_module where
  "own_load_module = \<lparr>keys = [''load''], houdini_load = NoExport\<rparr>"

definition own_load_only_route :: env where
  "own_load_only_route = sample_route [] (Some own_load_module)"

text \<open>
  The inline query \<open>Bar\<close>, which requires variables, with a module that lists the store
  of \<open>Bar\<close> and does not export \<open>BarVariables\<close>.
\<close>

definition bar_twice_route :: env where
  "bar_twice_route =
     sample_route [bar_literal]
       (Some \<lparr>keys = [''houdini_load''], houdini_load = EntryArray [ObjectEntry bar_store]\<rparr>)"

text \<open>
  The inline query \<open>Foo\<close> without a module, and with a module that exports
  \<open>FooVariables\<close> although \<open>Foo\<close> does not require variables.
\<close>

definition plain_route :: env where
  "plain_route = sample_route [foo_literal] None"

definition variable_fn_route :: env where
  "variable_fn_route =
     sample_route [foo_literal]
       (Some \<lparr>keys = [''FooVariables'', ''houdini_load''], houdini_load = EntryArray []\<rparr>)"

text \<open>A component whose only literal is a mutation, without a module.\<close>

definition mutation_only_route :: env where
  "mutation_only_route = sample_route [mutation_literal] None"

text \<open>
  Sample targets: the inline queries \<open>Foo\<close> and \<open>Bar\<close> and the store of \<open>Baz\<close> as the
  first entry of a list.
\<close>

definition foo_target :: LoadTarget where
  "foo_target = \<lparr>name = ''Foo'', variables = False, store_id = Identifier ''GQL_Foo''\<rparr>"

definition bar_target :: LoadTarget where
  "bar_target = \<lparr>name = ''Bar'', variables = True, store_id = Identifier ''GQL_Bar''\<rparr>"

definition baz_listed_target :: LoadTarget where
  "baz_listed_target =
     \<lparr>name = ''Baz'', variables = False,
      store_id = MemberExpression (Identifier ''houdini_load'') (Literal (LNumber 0))\<rparr>"

text \<open>
  A route with all three sources: the page query \<open>Foo\<close>, the inline query \<open>Bar\<close> in the
  component, and a \<open>houdini_load\<close> list with the store of a query \<open>Baz\<close>.
\<close>

definition bar_component :: string where
  "bar_component =
     ''<script>const { data } = query(graphql`query Bar($id: ID!) { node(id: $id) { id } }`)</script>''"

definition merged_route :: env where
  "merged_route =
     sample_env
       [''src/routes/+page.gql'' \<mapsto> ''query Foo { viewer { id } }'',
        ''src/routes/+page.svelte'' \<mapsto> bar_component]
       [bar_component \<mapsto>
          [\<lparr>tag_text = ''query Bar($id: ID!) { node(id: $id) { id } }'',
            parent_type = ''CallExpression''\<rparr>]]
       [''src/routes/+page.js'' \<mapsto>
          \<lparr>keys = [''BarVariables'', ''houdini_load''],
           houdini_load =
             EntryArray
               [ObjectEntry \<lparr>name = ''Baz'', variables = False, kind = Some ''HoudiniQuery''\<rparr>]\<rparr>]"

definition merged_route_info :: PageScriptInfo where
  "merged_route_info =
     \<lparr>load = Some [\<lparr>name = ''Baz'', variables = False\<rparr>],
      exports = [''BarVariables'', ''houdini_load'']\<rparr>"




definition string_list_route :: env where
  "string_list_route =
     sample_route []
       (Some \<lparr>keys = [''houdini_load''],
              houdini_load = EntryArray [StringEntry ''query Foo { viewer { id } }'']\<rparr>)"

definition malformed_page_query_route :: env where
  "malformed_page_query_route =
     sample_env [''src/routes/+page.gql'' \<mapsto> ''query Foo { viewer {''] Map.empty Map.empty"




section \<open>Properties of the load function\<close>

subsection \<open>The shape of the generated body\<close>

lemma splice_at_length:
  "array_splice (int (length pre)) items (pre @ post) = pre @ items @ post"
  by (simp add: array_splice_def Let_def)

lemma length_query_statements [simp]:
  "length (query_statements page_info after_load queries) = 2 * length queries"
  by (induction queries) (simp_all add: query_statements_def)

lemma splice_queries_eq:
  "splice_queries page_info after_load queries (int (length pre), pre @ post) =
     (int (length pre) + 2 * int (length queries),
      pre @ query_statements page_info after_load queries @ post)"
proof (induction queries arbitrary: pre)
  case Nil
  then show ?case by (simp add: query_statements_def)
next
  case (Cons query rest)
  let ?two = "[input_statement page_info query, fetch_statement after_load query]"
  have "splice_queries page_info after_load (query # rest) (int (length pre), pre @ post) =
        splice_queries page_info after_load rest (int (length (pre @ ?two)), (pre @ ?two) @ post)"
    by (simp add: splice_at_length add.commute)
  also have "\<dots> = (int (length (pre @ ?two)) + 2 * int (length rest),
                    (pre @ ?two) @ query_statements page_info after_load rest @ post)"
    by (rule Cons.IH)
  finally show ?case by (simp add: query_statements_def)
qed


lemma splice_before_last:
  "array_splice (int (length (front @ [r])) - 1) items (front @ [r]) = front @ items @ [r]"
  using splice_at_length [of front items "[r]"] by simp

lemma load_body_eq:
  "load_body page_info queries =
     [context_declaration]
     @ (if ''beforeLoad'' \<in> set (exports page_info) then before_hook queries else [])
     @ [inputs_declaration, promises_declaration]
     @ query_statements page_info (''afterLoad'' \<in> set (exports page_info)) queries
     @ [await_statement]
     @ (if ''afterLoad'' \<in> set (exports page_info) then after_hook queries else [])
     @ [return_statement]"
proof -
  let ?pre = "[context_declaration, inputs_declaration, promises_declaration]"
  let ?al = "''afterLoad'' \<in> set (exports page_info)"
  let ?bl = "''beforeLoad'' \<in> set (exports page_info)"
  let ?qs = "query_statements page_info ?al queries"
  define body2 where "body2 = ?pre @ ?qs @ [await_statement, return_statement]"
  define body3 where "body3 = (if ?bl then array_splice 1 (before_hook queries) body2 else body2)"
  define body4 where
    "body4 = (if ?al then array_splice (int (length body3) - 1) (after_hook queries) body3 else body3)"
  define front where
    "front = [context_declaration] @ (if ?bl then before_hook queries else [])
             @ [inputs_declaration, promises_declaration] @ ?qs @ [await_statement]"
  have loop: "splice_queries page_info ?al queries (3, initial_body) =
        (3 + 2 * int (length queries), ?pre @ ?qs @ [return_statement])"
    using splice_queries_eq [of page_info ?al queries ?pre "[return_statement]"]
    by (simp add: initial_body_def)
  have await: "array_splice (3 + 2 * int (length queries)) [await_statement]
                 (?pre @ ?qs @ [return_statement]) = body2"
    using splice_at_length [of "?pre @ ?qs" "[await_statement]" "[return_statement]"]
    by (simp add: add.commute body2_def)
  have unfolded: "load_body page_info queries = body4"
    unfolding load_body_def Let_def loop prod.case await body4_def body3_def
      before_hook_def after_hook_def ..
  have before: "array_splice 1 (before_hook queries) body2 =
                  context_declaration # before_hook queries @ tl body2"
    using splice_at_length [of "[context_declaration]" "before_hook queries" "tl body2"]
    by (simp add: body2_def)
  have b3: "body3 = front @ [return_statement]"
    unfolding body3_def before by (simp add: front_def body2_def)
  have b4: "body4 = front @ (if ?al then after_hook queries else []) @ [return_statement]"
    unfolding body4_def b3 by (simp add: splice_before_last del: length_append)
  show ?thesis
    unfolding unfolded b4 by (simp add: front_def)
qed


lemma verify_variable_fns_eq:
  "verify_variable_fns page page_info queries (invalid, st) =
     (invalid \<or> list_ex (missing_variable_fn page_info) queries,
      st\<lparr>console := console st
            @ map (\<lambda>query. missing_variable_fn_message page (query_variable_fn (name query)))
                (filter (missing_variable_fn page_info) queries)\<rparr>)"
proof (induction queries arbitrary: invalid st)
  case Nil
  then show ?case by simp
next
  case (Cons query rest)
  have step: "verify_variable_fns page page_info (query # rest) (invalid, st) =
      (if missing_variable_fn page_info query
       then verify_variable_fns page page_info rest
              (True, console_log (missing_variable_fn_message page (query_variable_fn (name query))) st)
       else verify_variable_fns page page_info rest (invalid, st))"
    by (simp add: missing_variable_fn_def Let_def)
  show ?case
    unfolding step Cons.IH by (simp add: console_log_def)
qed

lemma add_load_valid:
  assumes "''load'' \<notin> set (exports page_info)"
    and "\<not> list_ex (missing_variable_fn page_info) queries"
  shows "add_load e page queries page_info st =
           st\<lparr>script := snd (ensure_imports e (script st) [''RequestContext'']
                               ''$houdini/runtime/lib/network'')
                          @ [load_declaration page_info queries]\<rparr>"
  using assms
  by (simp add: add_load_def verify_variable_fns_eq filter_empty_conv list_ex_iff
      load_declaration_def split: prod.splits)

lemma add_load_invalid:
  assumes "''load'' \<notin> set (exports page_info)"
    and "list_ex (missing_variable_fn page_info) queries"
  shows "add_load e page queries page_info st =
           st\<lparr>console := console st
            @ map (\<lambda>query. missing_variable_fn_message page (query_variable_fn (name query)))
                (filter (missing_variable_fn page_info) queries)\<rparr>"
  using assms
  by (simp add: add_load_def verify_variable_fns_eq)

lemma generated_load_add_load:
  assumes "''load'' \<notin> set (exports page_info)"
    and "\<not> list_ex (missing_variable_fn page_info) queries"
  shows "generated_load (add_load e page queries page_info st) = Some (load_body page_info queries)"
  by (simp add: add_load_valid [OF assms] generated_load_def load_declaration_def)


lemma store_reference_calls: "store_reference r \<Longrightarrow> expression_calls r = []"
  by (induction r rule: store_reference.induct) simp_all

lemma calls_input_statement:
  "store_reference (store_id query) \<Longrightarrow>
   filter (is_method_call method) (statement_calls (input_statement page_info query)) =
     (if method = ''computeInput'' \<and> query_variable_fn (name query) \<in> set (exports page_info) 
      then statement_calls (input_statement page_info query) else [])"
  by (simp add: input_statement_def store_reference_calls)

lemma calls_fetch_statement:
  "store_reference (store_id query) \<Longrightarrow>
   filter (is_method_call ''fetch'') (statement_calls (fetch_statement after_load query)) =
     [fetch_call after_load query]"
  by (simp add: fetch_statement_def fetch_call_def store_reference_calls)

lemma fetch_calls_query_statements:
  "\<forall>query \<in> set queries. store_reference (store_id query) \<Longrightarrow>
   method_calls ''fetch'' (query_statements page_info after_load queries) =
     map (fetch_call after_load) queries"
  by (induction queries)
     (simp_all add: method_calls_def query_statements_def calls_input_statement calls_fetch_statement)


lemma method_calls_append [simp]:
  "method_calls m (xs @ ys) = method_calls m xs @ method_calls m ys"
  by (simp add: method_calls_def)

lemma method_calls_Cons:
  "method_calls m (x # xs) = filter (is_method_call m) (statement_calls x) @ method_calls m xs"
  by (simp add: method_calls_def)

lemma method_calls_Nil [simp]: "method_calls m [] = []"
  by (simp add: method_calls_def)

lemma data_properties_calls:
  "expression_calls result_id = [] \<Longrightarrow>
   concat (map (property_calls \<circ>
                (\<lambda>(i, query). ObjectProperty (StringLiteral (name query))
                                 (MemberExpression result_id (Literal (LNumber i)))))
             (enumerate n queries)) = []"
  by (induction queries arbitrary: n) simp_all

lemma fetch_calls_load_body:
  assumes "\<forall>query \<in> set queries. store_reference (store_id query)"
  shows "method_calls ''fetch'' (load_body page_info queries) =
     map (fetch_call (''afterLoad'' \<in> set (exports page_info))) queries"
  unfolding load_body_eq
  by (simp add: fetch_calls_query_statements [OF assms] method_calls_Cons
      context_declaration_def inputs_declaration_def promises_declaration_def
      await_statement_def return_statement_def before_hook_def after_hook_def
      load_hook_statements_def data_properties_calls)



lemma walk_graphql_tags_script:
  "walk_graphql_tags e tags where_fn tag_fn (acc, st) = Inr (result, st1) \<Longrightarrow>
     script st1 = script st"
  by (induction tags arbitrary: acc st)
     (auto simp: console_log_def split: option.splits if_splits sum.splits)

lemma import_stores_targets:
  "import_stores e queries body = (targets, body1) \<Longrightarrow>
     map name targets = map name queries \<and> map variables targets = map variables queries
     \<and> (\<forall>target \<in> set targets. store_reference (store_id target))"
proof (induction queries arbitrary: body targets body1)
  case Nil
  then show ?case by simp
next
  case (Cons query rest)
  obtain local_id added body2 where imp: "store_import e body (name query) = ((local_id, added), body2)"
    by (metis surj_pair)
  obtain targets' body3 where rest: "import_stores e rest body2 = (targets', body3)"
    by (metis surj_pair)
  from Cons.prems imp rest have
    "targets = \<lparr>name = name query, variables = variables query, store_id = Identifier local_id\<rparr> # targets'"
    by simp
  with Cons.IH [OF rest] show ?case by simp
qed

lemma import_stores_script:
  "snd (import_stores e queries body) = store_imports e (map name queries) body"
proof (induction queries arbitrary: body)
  case Nil
  then show ?case by simp
next
  case (Cons query rest)
  obtain local_id added body1 where imp: "store_import e body (name query) = ((local_id, added), body1)"
    by (metis surj_pair)
  obtain targets body2 where rest: "import_stores e rest body1 = (targets, body2)"
    by (metis surj_pair)
  from Cons.IH [of body1] rest have "body2 = store_imports e (map name rest) body1"
    by simp
  with imp rest show ?case by simp
qed

text \<open>What the three discovery functions do to the script.\<close>

lemma find_inline_queries_cases:
  assumes "find_inline_queries e page st = Inr (targets, st1)"
  shows "(\<forall>target \<in> set targets. store_reference (store_id target))
         \<and> script st1 = store_imports e (map name targets) (script st)"
proof (cases "readFile e (routePagePath (config page) (filepath page))")
  case None
  with assms show ?thesis by (simp add: find_inline_queries_def)
next
  case (Some contents)
  show ?thesis
  proof (cases "contents = []")
    case True
    with assms Some show ?thesis by (simp add: find_inline_queries_def)
  next
    case False
    with assms Some obtain parsed queries st0 where
      walk: "walk_graphql_tags e parsed inline_query_where inline_query_tag ([], st) = Inr (queries, st0)"
      and result: "targets = fst (import_stores e queries (script st0))"
                  "st1 = st0\<lparr>script := snd (import_stores e queries (script st0))\<rparr>"
      by (auto simp: find_inline_queries_def split: option.splits sum.splits prod.splits)
    have kept: "script st0 = script st"
      by (rule walk_graphql_tags_script [OF walk])
    obtain body where imp: "import_stores e queries (script st0) = (targets, body)"
      using result(1) by (cases "import_stores e queries (script st0)") simp
    from import_stores_targets [OF imp] import_stores_script [of e queries "script st0"] result kept
    show ?thesis by simp
  qed
qed

lemma find_inline_queries_references:
  "find_inline_queries e page st = Inr (targets, st1) \<Longrightarrow>
     \<forall>target \<in> set targets. store_reference (store_id target)"
  using find_inline_queries_cases by blast

lemma find_page_query_reference:
  "find_page_query e page st = Inr (Some target, st1) \<Longrightarrow> store_reference (store_id target)"
  by (auto simp: find_page_query_def Let_def 
      split: option.splits if_splits sum.splits prod.splits DefinitionNode.splits)

lemma find_page_query_script:
  "find_page_query e page st = Inr (page_query, st1) \<Longrightarrow>
     script st1 =
       store_imports e (map name (case page_query of None \<Rightarrow> [] | Some target \<Rightarrow> [target]))
         (script st)"
  by (auto simp: find_page_query_def Let_def console_log_def
      split: option.splits if_splits sum.splits prod.splits DefinitionNode.splits)

lemma referenced_stores_script:
  "referenced_stores e stores load_list seen st = Inr (result, st1) \<Longrightarrow> script st1 = script st"
  by (induction e stores load_list seen st rule: referenced_stores.induct)
     (auto simp: console_log_def split: if_splits option.splits)

lemma find_page_info_script:
  "find_page_info e page st = Inr (page_info, st1) \<Longrightarrow> script st1 = script st"
  by (auto simp: find_page_info_def console_log_def
      split: if_splits option.splits houdini_load_export.splits sum.splits prod.splits
      dest: referenced_stores_script)

lemma houdini_load_targets_references:
  "\<forall>target \<in> set (houdini_load_targets page_info). store_reference (store_id target)"
  by (auto simp: houdini_load_targets_def)

lemma collect_queries_cases:
  assumes "collect_queries e page st = Inr ((queries, page_info), st3)"
  obtains page_query st1 inline_queries st2 where
    "find_page_query e page st = Inr (page_query, st1)"
    "find_inline_queries e page st1 = Inr (inline_queries, st2)"
    "find_page_info e page st2 = Inr (page_info, st3)"
    "queries = inline_queries @ (case page_query of None \<Rightarrow> [] | Some target \<Rightarrow> [target])
               @ houdini_load_targets page_info"
  using assms
  by (auto simp: collect_queries_def Let_def split: sum.splits prod.splits)

lemma collect_queries_references:
  assumes "collect_queries e page st = Inr ((queries, page_info), st3)"
  shows "\<forall>target \<in> set queries. store_reference (store_id target)"
proof -
  from assms obtain page_query st1 inline_queries st2 where
    pq: "find_page_query e page st = Inr (page_query, st1)" and
    inl: "find_inline_queries e page st1 = Inr (inline_queries, st2)" and
    qs: "queries = inline_queries @ (case page_query of None \<Rightarrow> [] | Some target \<Rightarrow> [target])
               @ houdini_load_targets page_info"
    by (rule collect_queries_cases)
  have "\<forall>target \<in> set (case page_query of None \<Rightarrow> [] | Some target \<Rightarrow> [target]).
          store_reference (store_id target)"
    using find_page_query_reference [of e page st _ st1] pq by (cases page_query) simp_all
  with find_inline_queries_references [OF inl] houdini_load_targets_references [of page_info]
  show ?thesis unfolding qs by auto
qed

lemma svelteKitProcessor_route_script:
  assumes "framework (config page) = ''kit''"
    and "\<not> isRoute (config page) (filepath page)"
    and "isRouteScript (config page) (filepath page)"
    and "collect_queries e page st = Inr ((queries, page_info), st1)"
  shows "svelteKitProcessor e cfg page st = Inr (add_load e page queries page_info st1)"
  using assms by (simp add: svelteKitProcessor_def)


text \<open>
  The body of the generated function, written out: every statement as the builders of
  \<open>add_load\<close> and \<open>load_hook_statements\<close> produce it.
\<close>

lemma load_body_explicit:
  "load_body page_info queries =
     [VariableDeclaration ''const''
        [(Identifier ''houdini_context'',
          NewExpression (Identifier ''RequestContext'') [Identifier ''context''])]]
     @ (if ''beforeLoad'' \<in> set (exports page_info)
        then [ExpressionStatement
                (AwaitExpression
                   (CallExpression
                      (MemberExpression (Identifier ''houdini_context'') (Identifier ''invokeLoadHook''))
                      [ObjectExpression
                         [ObjectProperty (Literal (LString ''variant'')) (StringLiteral ''before''),
                          ObjectProperty (Literal (LString ''hookFn'')) (Identifier ''beforeLoad'')]]))]
        else [])
     @ [VariableDeclaration ''const'' [(Identifier ''inputs'', ObjectExpression [])],
        VariableDeclaration ''const'' [(Identifier ''promises'', ArrayExpression [])]]
     @ concat
         (map (\<lambda>query.
                 [ExpressionStatement
                    (AssignmentExpression ''=''
                       (MemberExpression (Identifier ''inputs'') (Literal (LString (name query))))
                       (if name query @ ''Variables'' \<in> set (exports page_info)
                        then CallExpression
                                (MemberExpression (Identifier ''houdini_context'') (Identifier ''computeInput''))
                                [ObjectExpression
                                   [ObjectProperty (Literal (LString ''config'')) (Identifier ''houdiniConfig''),
                                    ObjectProperty (Literal (LString ''variableFunction'')) (Identifier (name query @ ''Variables'')),
                                    ObjectProperty (Literal (LString ''artifact''))
                                      (MemberExpression (store_id query) (Literal (LString ''artifact'')))]]
                        else ObjectExpression [])),
                  ExpressionStatement
                    (CallExpression (MemberExpression (Identifier ''promises'') (Identifier ''push''))
                       [CallExpression (MemberExpression (store_id query) (Identifier ''fetch''))
                          [ObjectExpression
                             [ObjectProperty (Literal (LString ''variables''))
                                (MemberExpression (Identifier ''inputs'') (Literal (LString (name query)))),
                              ObjectProperty (Literal (LString ''event'')) (Identifier ''context''),
                              ObjectProperty (Literal (LString ''blocking'')) (BooleanLiteral (''afterLoad'' \<in> set (exports page_info)))]]])])
            queries)
     @ [VariableDeclaration ''const''
          [(Identifier ''result'',
            AwaitExpression
              (CallExpression (MemberExpression (Identifier ''Promise'') (Identifier ''all''))
                 [Identifier ''promises'']))]]
     @ (if ''afterLoad'' \<in> set (exports page_info)
        then [ExpressionStatement
                (AwaitExpression
                   (CallExpression
                      (MemberExpression (Identifier ''houdini_context'') (Identifier ''invokeLoadHook''))
                      [ObjectExpression
                         [ObjectProperty (Literal (LString ''variant'')) (StringLiteral ''after''),
                          ObjectProperty (Literal (LString ''hookFn'')) (Identifier ''afterLoad''),
                          ObjectProperty (Literal (LString ''input'')) (Identifier ''inputs''),
                          ObjectProperty (Literal (LString ''data''))
                            (ObjectExpression
                               (map (\<lambda>(i, query).
                                       ObjectProperty (StringLiteral (name query))
                                         (MemberExpression (Identifier ''result'') (Literal (LNumber i))))
                                  (enumerate 0 queries)))]]))]
        else [])
     @ [ReturnStatement
          (ObjectExpression
             [SpreadElement
                (MemberExpression (Identifier ''houdini_context'') (Identifier ''returnValue'')),
              ObjectProperty (Identifier ''inputs'') (Identifier ''inputs'')])]"
  unfolding load_body_eq context_declaration_def inputs_declaration_def
    promises_declaration_def await_statement_def return_statement_def before_hook_def
    after_hook_def load_hook_statements_def query_statements_def input_statement_def
    fetch_statement_def query_variable_fn_def
  by simp


lemma missing_variable_fn_explicit:
  "missing_variable_fn page_info =
     (\<lambda>query. variables query \<and> name query @ ''Variables'' \<notin> set (exports page_info))"
  by (auto simp: missing_variable_fn_def query_variable_fn_def fun_eq_iff)

lemma add_load_explicit:
  assumes "''load'' \<notin> set (exports page_info)"
    and "\<not> list_ex (\<lambda>query. variables query \<and> name query @ ''Variables'' \<notin> set (exports page_info)) queries"
  shows "add_load e page queries page_info st =
           st\<lparr>script :=
                 snd (ensure_imports e (script st) [''RequestContext''] ''$houdini/runtime/lib/network'')
                 @ [ExportNamedDeclaration
                      (FunctionDeclaration (Identifier ''load'') [Identifier ''context'']
                         (BlockStatement
                            ([VariableDeclaration ''const''
                                [(Identifier ''houdini_context'',
                                  NewExpression (Identifier ''RequestContext'') [Identifier ''context''])]]
                             @ (if ''beforeLoad'' \<in> set (exports page_info)
                                then [ExpressionStatement
                                        (AwaitExpression
                                           (CallExpression
                                              (MemberExpression (Identifier ''houdini_context'') (Identifier ''invokeLoadHook''))
                                              [ObjectExpression
                                                 [ObjectProperty (Literal (LString ''variant'')) (StringLiteral ''before''),
                                                  ObjectProperty (Literal (LString ''hookFn'')) (Identifier ''beforeLoad'')]]))]
                                else [])
                             @ [VariableDeclaration ''const'' [(Identifier ''inputs'', ObjectExpression [])],
                                VariableDeclaration ''const'' [(Identifier ''promises'', ArrayExpression [])]]
                             @ concat
                                 (map (\<lambda>query.
                                         [ExpressionStatement
                                            (AssignmentExpression ''=''
                                               (MemberExpression (Identifier ''inputs'') (Literal (LString (name query))))
                                               (if name query @ ''Variables'' \<in> set (exports page_info)
                                                then CallExpression
                                                        (MemberExpression (Identifier ''houdini_context'') (Identifier ''computeInput''))
                                                        [ObjectExpression
                                                           [ObjectProperty (Literal (LString ''config'')) (Identifier ''houdiniConfig''),
                                                            ObjectProperty (Literal (LString ''variableFunction'')) (Identifier (name query @ ''Variables'')),
                                                            ObjectProperty (Literal (LString ''artifact''))
                                                              (MemberExpression (store_id query) (Literal (LString ''artifact'')))]]
                                                else ObjectExpression [])),
                                          ExpressionStatement
                                            (CallExpression (MemberExpression (Identifier ''promises'') (Identifier ''push''))
                                               [CallExpression (MemberExpression (store_id query) (Identifier ''fetch''))
                                                  [ObjectExpression
                                                     [ObjectProperty (Literal (LString ''variables''))
                                                        (MemberExpression (Identifier ''inputs'') (Literal (LString (name query)))),
                                                      ObjectProperty (Literal (LString ''event'')) (Identifier ''context''),
                                                      ObjectProperty (Literal (LString ''blocking'')) (BooleanLiteral (''afterLoad'' \<in> set (exports page_info)))]]])])
                                    queries)
                             @ [VariableDeclaration ''const''
                                  [(Identifier ''result'',
                                    AwaitExpression
                                      (CallExpression (MemberExpression (Identifier ''Promise'') (Identifier ''all''))
                                         [Identifier ''promises'']))]]
                             @ (if ''afterLoad'' \<in> set (exports page_info)
                                then [ExpressionStatement
                                        (AwaitExpression
                                           (CallExpression
                                              (MemberExpression (Identifier ''houdini_context'') (Identifier ''invokeLoadHook''))
                                              [ObjectExpression
                                                 [ObjectProperty (Literal (LString ''variant'')) (StringLiteral ''after''),
                                                  ObjectProperty (Literal (LString ''hookFn'')) (Identifier ''afterLoad''),
                                                  ObjectProperty (Literal (LString ''input'')) (Identifier ''inputs''),
                                                  ObjectProperty (Literal (LString ''data''))
                                                    (ObjectExpression
                                                       (map (\<lambda>(i, query).
                                                               ObjectProperty (StringLiteral (name query))
                                                                 (MemberExpression (Identifier ''result'') (Literal (LNumber i))))
                                                          (enumerate 0 queries)))]]))]
                                else [])
                             @ [ReturnStatement
                                  (ObjectExpression
                                     [SpreadElement
                                        (MemberExpression (Identifier ''houdini_context'') (Identifier ''returnValue'')),
                                      ObjectProperty (Identifier ''inputs'') (Identifier ''inputs'')])]))
                         True)]\<rparr>"
  using assms
  by (simp add: add_load_valid missing_variable_fn_explicit load_declaration_def
      load_body_explicit)

lemma store_imports_append:
  "store_imports e (names @ others) body = store_imports e others (store_imports e names body)"
  by (induction names arbitrary: body) simp_all

lemmas sample_defs = sample_route_def sample_env_def sample_page_def sample_config_def
  sample_state_def sample_parse_def sample_store_import_def sample_ensure_imports_def

lemmas processor_defs = collect_queries_def find_page_query_def find_inline_queries_def
  find_page_info_def inline_query_where_def inline_query_tag_def houdini_load_targets_def
  console_log_def nil_def








lemma discovery_script:
  assumes "find_page_query e page st = Inr (page_query, st1)"
    and "find_inline_queries e page st1 = Inr (inline_queries, st2)"
    and "find_page_info e page st2 = Inr (page_info, st3)"
  shows "script st3 =
           store_imports e
             (map name (case page_query of None \<Rightarrow> [] | Some target \<Rightarrow> [target]) @ map name inline_queries)
             (script st)"
proof -
  have "script st3 = script st2"
    using assms(3) by (rule find_page_info_script)
  also have "\<dots> = store_imports e (map name inline_queries) (script st1)"
    using find_inline_queries_cases [OF assms(2)] by simp
  also have "script st1 = store_imports e (map name (case page_query of None \<Rightarrow> [] | Some target \<Rightarrow> [target])) (script st)"
    using assms(1) by (rule find_page_query_script)
  finally show ?thesis by (simp add: store_imports_append)
qed

lemma collect_queries_steps:
  assumes "find_page_query e page st = Inr (page_query, st1)"
    and "find_inline_queries e page st1 = Inr (inline_queries, st2)"
    and "find_page_info e page st2 = Inr (page_info, st3)"
  shows "collect_queries e page st =
           Inr ((inline_queries
                 @ (case page_query of None \<Rightarrow> [] | Some target \<Rightarrow> [target])
                 @ map (\<lambda>(i, target).
                          \<lparr>name = name target, variables = variables target,
                           store_id = MemberExpression (Identifier ''houdini_load'') (Literal (LNumber i))\<rparr>)
                     (enumerate 0 (case load page_info of None \<Rightarrow> [] | Some targets \<Rightarrow> targets)),
                 page_info), st3)"
  using assms by (simp add: collect_queries_def houdini_load_targets_def)

lemma SvelteKitProcessor_verify_variable_fns_eq:
  "SvelteKitProcessor_verify_variable_fns e page page_info queries (invalid, st) =
     (invalid \<or> list_ex (missing_variable_fn page_info) queries,
      st\<lparr>console := console st
            @ concat
                (map (\<lambda>query.
                        ['''', inspect e (exports page_info),
                         SvelteKitProcessor_message page (query_variable_fn (name query))])
                   (filter (missing_variable_fn page_info) queries))\<rparr>)"
proof (induction queries arbitrary: invalid st)
  case Nil
  then show ?case by simp
next
  case (Cons query rest)
  have step: "SvelteKitProcessor_verify_variable_fns e page page_info (query # rest) (invalid, st) =
      (if missing_variable_fn page_info query
       then SvelteKitProcessor_verify_variable_fns e page page_info rest
              (True,
               console_log (SvelteKitProcessor_message page (query_variable_fn (name query)))
                 (console_log (inspect e (exports page_info)) (console_log '''' st)))
       else SvelteKitProcessor_verify_variable_fns e page page_info rest (invalid, st))"
    by (simp add: missing_variable_fn_def Let_def)
  show ?case
    unfolding step Cons.IH by (simp add: console_log_def)
qed

lemma SvelteKitProcessor_add_load_invalid:
  assumes "''load'' \<notin> set (exports page_info)"
    and "list_ex (missing_variable_fn page_info) queries"
  shows "SvelteKitProcessor_add_load e page queries page_info synthesize st =
           st\<lparr>console := console st
             @ concat
                 (map (\<lambda>query.
                         ['''', inspect e (exports page_info),
                          SvelteKitProcessor_message page (query_variable_fn (name query))])
                    (filter (missing_variable_fn page_info) queries))\<rparr>"
  using assms
  by (simp add: SvelteKitProcessor_add_load_def SvelteKitProcessor_verify_variable_fns_eq)


subsection \<open>The blocking flag\<close>

lemma after_hook_only_route_collected:
  "collect_queries after_hook_only_route sample_page sample_state =
     Inr (([\<lparr>name = ''Foo'', variables = False, store_id = Identifier ''GQL_Foo''\<rparr>,
            \<lparr>name = ''Baz'', variables = False, store_id = Identifier ''GQL_Baz''\<rparr>],
           \<lparr>load = Some [], exports = []\<rparr>),
          \<lparr>script =
             [ImportDeclaration [''GQL_Baz''] ''$houdini/stores/Baz'',
              ImportDeclaration [''GQL_Foo''] ''$houdini/stores/Foo'',
              SourceStatement ''const started = Date.now()''],
           console = []\<rparr>)"
  by (simp add: after_hook_only_route_def after_hook_module_def foo_literal_def baz_literal_def
      sample_defs processor_defs)

text \<open>
  What the flag follows: when a load function is generated, it holds one fetch call per
  target, in the order of the targets, and each passes \<open>blocking\<close> as the boolean literal
  that says whether the exports reported by \<open>find_page_info\<close> include \<open>afterLoad\<close>.
\<close>

lemma blocking_follows_reported_exports:
  assumes "framework (config page) = ''kit''"
    and "\<not> isRoute (config page) (filepath page)"
    and "isRouteScript (config page) (filepath page)"
    and "collect_queries e page st = Inr ((queries, page_info), st1)"
    and "''load'' \<notin> set (exports page_info)"
    and "\<not> list_ex (\<lambda>query. variables query \<and> name query @ ''Variables'' \<notin> set (exports page_info)) queries"
  shows "\<exists>st2 body.
           svelteKitProcessor e cfg page st = Inr st2
           \<and> generated_load st2 = Some body
           \<and> map (call_option ''blocking'') (method_calls ''fetch'' body) =
               map (\<lambda>query. Some (BooleanLiteral (''afterLoad'' \<in> set (exports page_info))))
                 queries"
proof -
  have valid: "\<not> list_ex (missing_variable_fn page_info) queries"
    using assms(6) unfolding missing_variable_fn_explicit .
  have run: "svelteKitProcessor e cfg page st = Inr (add_load e page queries page_info st1)"
    using assms(1-4) by (rule svelteKitProcessor_route_script)
  have body: "generated_load (add_load e page queries page_info st1) =
                Some (load_body page_info queries)"
    using assms(5) valid by (rule generated_load_add_load)
  have "method_calls ''fetch'' (load_body page_info queries) =
          map (fetch_call (''afterLoad'' \<in> set (exports page_info))) queries"
    using collect_queries_references [OF assms(4)] by (rule fetch_calls_load_body)
  then have "map (call_option ''blocking'') (method_calls ''fetch'' (load_body page_info queries)) =
               map (\<lambda>query. Some (BooleanLiteral (''afterLoad'' \<in> set (exports page_info))))
                 queries"
    by (simp add: fetch_call_def)
  with run body show ?thesis by blast
qed

text \<open>
  The exports that \<open>find_page_info\<close> reports are those of the module only when the
  module exports a valid \<open>houdini_load\<close> list; in every other case it reports none.
\<close>

lemma module_without_store_list:
  assumes "NODE_ENV e \<noteq> ''test''"
    and "import_module e (filepath page) = Some module"
    and "houdini_load module = NoExport"
  shows "find_page_info e page st = Inr (\<lparr>load = Some [], exports = []\<rparr>, st)"
  using assms by (simp add: find_page_info_def nil_def)

lemma reported_exports_subset:
  assumes "NODE_ENV e \<noteq> ''test''"
    and "import_module e (filepath page) = Some module"
    and "find_page_info e page st = Inr (page_info, st1)"
  shows "set (exports page_info) \<subseteq> set (keys module)"
  using assms
  by (auto simp: find_page_info_def nil_def
      split: houdini_load_export.splits sum.splits prod.splits option.splits if_splits)

text \<open>
  Claim C1. The claim makes \<open>blocking\<close> true for every target exactly when the exports of
  the route script include \<open>afterLoad\<close>. The route script below exports \<open>afterLoad\<close>
  and nothing else, and the component of its route holds two inline queries, \<open>Foo\<close> and
  \<open>Baz\<close>. The processor, run outside the test environment, adds a load function to the
  script whose two fetch calls both pass \<open>blocking: false\<close> and which never calls the
  after hook.
\<close>

theorem after_hook_without_store_list:
  "import_module after_hook_only_route (filepath sample_page) =
     Some \<lparr>keys = [''afterLoad''], houdini_load = NoExport\<rparr>
   \<and> svelteKitProcessor after_hook_only_route sample_config sample_page sample_state =
     Inr \<lparr>script =
            [ImportDeclaration [''RequestContext''] ''$houdini/runtime/lib/network'',
             ImportDeclaration [''GQL_Baz''] ''$houdini/stores/Baz'',
             ImportDeclaration [''GQL_Foo''] ''$houdini/stores/Foo'',
             SourceStatement ''const started = Date.now()'',
             ExportNamedDeclaration
               (FunctionDeclaration (Identifier ''load'') [Identifier ''context'']
                  (BlockStatement
                     ([VariableDeclaration ''const''
                         [(Identifier ''houdini_context'',
                           NewExpression (Identifier ''RequestContext'') [Identifier ''context''])],
                       VariableDeclaration ''const'' [(Identifier ''inputs'', ObjectExpression [])],
                       VariableDeclaration ''const'' [(Identifier ''promises'', ArrayExpression [])],
                       ExpressionStatement
                         (AssignmentExpression ''=''
                            (MemberExpression (Identifier ''inputs'') (Literal (LString ''Foo'')))
                            (ObjectExpression [])),
                       ExpressionStatement
                         (CallExpression (MemberExpression (Identifier ''promises'') (Identifier ''push''))
                            [CallExpression (MemberExpression (Identifier ''GQL_Foo'') (Identifier ''fetch''))
                               [ObjectExpression
                                  [ObjectProperty (Literal (LString ''variables''))
                                     (MemberExpression (Identifier ''inputs'') (Literal (LString ''Foo''))),
                                   ObjectProperty (Literal (LString ''event'')) (Identifier ''context''),
                                   ObjectProperty (Literal (LString ''blocking'')) (BooleanLiteral False)]]]),
                       ExpressionStatement
                         (AssignmentExpression ''=''
                            (MemberExpression (Identifier ''inputs'') (Literal (LString ''Baz'')))
                            (ObjectExpression [])),
                       ExpressionStatement
                         (CallExpression (MemberExpression (Identifier ''promises'') (Identifier ''push''))
                            [CallExpression (MemberExpression (Identifier ''GQL_Baz'') (Identifier ''fetch''))
                               [ObjectExpression
                                  [ObjectProperty (Literal (LString ''variables''))
                                     (MemberExpression (Identifier ''inputs'') (Literal (LString ''Baz''))),
                                   ObjectProperty (Literal (LString ''event'')) (Identifier ''context''),
                                   ObjectProperty (Literal (LString ''blocking'')) (BooleanLiteral False)]]]),
                       VariableDeclaration ''const''
                         [(Identifier ''result'',
                           AwaitExpression
                             (CallExpression (MemberExpression (Identifier ''Promise'') (Identifier ''all''))
                                [Identifier ''promises'']))],
                       ReturnStatement
                         (ObjectExpression
                            [SpreadElement
                               (MemberExpression (Identifier ''houdini_context'') (Identifier ''returnValue'')),
                             ObjectProperty (Identifier ''inputs'') (Identifier ''inputs'')])]))
                  True)],
          console = []\<rparr>"
proof -
  have run: "svelteKitProcessor after_hook_only_route sample_config sample_page sample_state =
      Inr (add_load after_hook_only_route sample_page
             [\<lparr>name = ''Foo'', variables = False, store_id = Identifier ''GQL_Foo''\<rparr>,
              \<lparr>name = ''Baz'', variables = False, store_id = Identifier ''GQL_Baz''\<rparr>]
             \<lparr>load = Some [], exports = []\<rparr>
             \<lparr>script =
                [ImportDeclaration [''GQL_Baz''] ''$houdini/stores/Baz'',
                 ImportDeclaration [''GQL_Foo''] ''$houdini/stores/Foo'',
                 SourceStatement ''const started = Date.now()''],
              console = []\<rparr>)"
    using svelteKitProcessor_route_script
            [OF _ _ _ after_hook_only_route_collected, of sample_config]
    by (simp add: sample_defs)
  show ?thesis
    unfolding run
    by (simp add: add_load_explicit after_hook_only_route_def after_hook_module_def sample_defs)
qed


subsection \<open>A missing variable function\<close>

lemma bar_twice_route_page_query:
  "find_page_query bar_twice_route sample_page sample_state =
     Inr (None,
          \<lparr>script =
             [SourceStatement ''const started = Date.now()''],
           console = []\<rparr>)"
  by (simp add: bar_twice_route_def bar_literal_def bar_store_def sample_defs processor_defs)

lemma bar_twice_route_inline_queries:
  "find_inline_queries bar_twice_route sample_page
     \<lparr>script =
        [SourceStatement ''const started = Date.now()''],
      console = []\<rparr> =
     Inr ([\<lparr>name = ''Bar'', variables = True, store_id = Identifier ''GQL_Bar''\<rparr>],
          \<lparr>script =
             [ImportDeclaration [''GQL_Bar''] ''$houdini/stores/Bar'',
              SourceStatement ''const started = Date.now()''],
           console = []\<rparr>)"
  by (simp add: bar_twice_route_def bar_literal_def bar_store_def sample_defs processor_defs)

lemma bar_twice_route_page_info:
  "find_page_info bar_twice_route sample_page st =
     Inr (\<lparr>load = Some [\<lparr>name = ''Bar'', variables = True\<rparr>], exports = [''houdini_load'']\<rparr>, st)"
  by (simp add: bar_twice_route_def bar_literal_def bar_store_def sample_defs processor_defs)

text \<open>
  Claim C3. Let no \<open>load\<close> be among the reported exports of a route script, and let
  some query target require variables while its variable function is not among them. Then
  the processor adds no load function: it ends in the state in which query discovery left
  the page, with one message more on the console for every such target, in the order of
  the targets, each naming the route file and the target's variable function. The script
  of that state is the script the processor was given with the store imports of the page
  query and of the inline queries added. The \<open>add_load\<close> of the other revision likewise
  returns before it touches the script, and writes three lines for every such target: an
  empty line, the printed exports and the message. The claim has the script unchanged and
  one message in all.
\<close>

theorem missing_variable_fn_diagnostics:
  assumes "framework (config page) = ''kit''"
    and "\<not> isRoute (config page) (filepath page)"
    and "isRouteScript (config page) (filepath page)"
    and "find_page_query e page st = Inr (page_query, st1)"
    and "find_inline_queries e page st1 = Inr (inline_queries, st2)"
    and "find_page_info e page st2 = Inr (page_info, st3)"
    and "queries =
           inline_queries
           @ (case page_query of None \<Rightarrow> [] | Some target \<Rightarrow> [target])
           @ map (\<lambda>(i, target).
                    \<lparr>name = name target, variables = variables target,
                     store_id = MemberExpression (Identifier ''houdini_load'') (Literal (LNumber i))\<rparr>)
               (enumerate 0 (case load page_info of None \<Rightarrow> [] | Some targets \<Rightarrow> targets))"
    and "''load'' \<notin> set (exports page_info)"
    and "list_ex (\<lambda>query. variables query \<and> name query @ ''Variables'' \<notin> set (exports page_info)) queries"
  shows "svelteKitProcessor e cfg page st =
           Inr (st3\<lparr>console := console st3
                  @ map (\<lambda>query.
                           ''error in '' @ filepath page @ '':'' @ [CHR 0x0A]
                           @ ''could not find required variable function: '' @ name query @ ''Variables''
                           @ ''. maybe its not exported?'' @ [CHR 0x0A])
                      (filter (\<lambda>query. variables query \<and> name query @ ''Variables'' \<notin> set (exports page_info))
                         queries)\<rparr>)
         \<and> script st3 =
             store_imports e
               (map name (case page_query of None \<Rightarrow> [] | Some target \<Rightarrow> [target]) @ map name inline_queries)
               (script st)
         \<and> SvelteKitProcessor_add_load e page queries page_info synthesize st3 =
             st3\<lparr>console := console st3
               @ concat
                   (map (\<lambda>query.
                          ['''',
                           inspect e (exports page_info),
                           ''error in '' @ filepath page @ '':'' @ [CHR 0x0A]
                           @ ''could not find required variable function: '' @ name query @ ''Variables''
                           @ ''. maybe its not exported?''])
                      (filter (\<lambda>query. variables query \<and> name query @ ''Variables'' \<notin> set (exports page_info))
                         queries))\<rparr>"
proof -
  have collected: "collect_queries e page st = Inr ((queries, page_info), st3)"
    unfolding assms(7) using assms(4-6) by (rule collect_queries_steps)
  have invalid: "list_ex (missing_variable_fn page_info) queries"
    using assms(9) unfolding missing_variable_fn_explicit .
  have run: "svelteKitProcessor e cfg page st =
           Inr (st3\<lparr>console := console st3
                  @ map (\<lambda>query.
                           ''error in '' @ filepath page @ '':'' @ [CHR 0x0A]
                           @ ''could not find required variable function: '' @ name query @ ''Variables''
                           @ ''. maybe its not exported?'' @ [CHR 0x0A])
                      (filter (\<lambda>query. variables query \<and> name query @ ''Variables'' \<notin> set (exports page_info))
                         queries)\<rparr>)"
    unfolding svelteKitProcessor_route_script [OF assms(1-3) collected]
      add_load_invalid [OF assms(8) invalid] missing_variable_fn_explicit
      missing_variable_fn_message_def query_variable_fn_def by simp
  have other: "SvelteKitProcessor_add_load e page queries page_info synthesize st3 =
             st3\<lparr>console := console st3
               @ concat
                   (map (\<lambda>query.
                          ['''',
                           inspect e (exports page_info),
                           ''error in '' @ filepath page @ '':'' @ [CHR 0x0A]
                           @ ''could not find required variable function: '' @ name query @ ''Variables''
                           @ ''. maybe its not exported?''])
                      (filter (\<lambda>query. variables query \<and> name query @ ''Variables'' \<notin> set (exports page_info))
                         queries))\<rparr>"
    unfolding SvelteKitProcessor_add_load_invalid [OF assms(8) invalid]
      missing_variable_fn_explicit SvelteKitProcessor_message_def query_variable_fn_def by simp
  from run discovery_script [OF assms(4-6)] other show ?thesis by blast
qed

theorem missing_variable_fn_diagnostics_witness:
  "svelteKitProcessor bar_twice_route sample_config sample_page sample_state =
     Inr \<lparr>script =
            [ImportDeclaration [''GQL_Bar''] ''$houdini/stores/Bar'',
             SourceStatement ''const started = Date.now()''],
          console =
            [''error in src/routes/+page.js:'' @ [CHR 0x0A]
             @ ''could not find required variable function: BarVariables. maybe its not exported?'' @ [CHR 0x0A],
             ''error in src/routes/+page.js:'' @ [CHR 0x0A]
             @ ''could not find required variable function: BarVariables. maybe its not exported?'' @ [CHR 0x0A]]\<rparr>
   \<and> store_imports bar_twice_route [''Bar''] (script sample_state) =
     [ImportDeclaration [''GQL_Bar''] ''$houdini/stores/Bar'',
      SourceStatement ''const started = Date.now()'']
   \<and> SvelteKitProcessor_add_load bar_twice_route sample_page
       [\<lparr>name = ''Bar'', variables = True, store_id = Identifier ''GQL_Bar''\<rparr>,
        \<lparr>name = ''Bar'', variables = True, store_id = MemberExpression (Identifier ''houdini_load'') (Literal (LNumber 0))\<rparr>]
       \<lparr>load = Some [\<lparr>name = ''Bar'', variables = True\<rparr>], exports = [''houdini_load'']\<rparr>
       (\<lambda>st. st)
       \<lparr>script =
          [ImportDeclaration [''GQL_Bar''] ''$houdini/stores/Bar'',
           SourceStatement ''const started = Date.now()''],
        console = []\<rparr> =
     \<lparr>script =
        [ImportDeclaration [''GQL_Bar''] ''$houdini/stores/Bar'',
         SourceStatement ''const started = Date.now()''],
      console =
        ['''',
         ''[ houdini_load ]'',
         ''error in src/routes/+page.js:'' @ [CHR 0x0A]
         @ ''could not find required variable function: BarVariables. maybe its not exported?'',
         '''',
         ''[ houdini_load ]'',
         ''error in src/routes/+page.js:'' @ [CHR 0x0A]
         @ ''could not find required variable function: BarVariables. maybe its not exported?'']\<rparr>"
  using missing_variable_fn_diagnostics
          [OF _ _ _ bar_twice_route_page_query bar_twice_route_inline_queries
              bar_twice_route_page_info refl, of sample_config "\<lambda>st. st"]
  by (simp add: bar_twice_route_def sample_defs)

text \<open>
  The route below has the inline query \<open>Bar\<close>, which requires variables, and a route
  script that lists the store of \<open>Bar\<close> in \<open>houdini_load\<close> and does not export
  \<open>BarVariables\<close>. The processor leaves the script with the import of the store of
  \<open>Bar\<close> added, and the console with two messages that name \<open>BarVariables\<close>.
\<close>

theorem missing_variable_fn_counterexample:
  "import_module bar_twice_route (filepath sample_page) =
     Some \<lparr>keys = [''houdini_load''],
            houdini_load =
              EntryArray
                [ObjectEntry \<lparr>name = ''Bar'', variables = True, kind = Some ''HoudiniQuery''\<rparr>]\<rparr>
   \<and> script sample_state = [SourceStatement ''const started = Date.now()'']
   \<and> console sample_state = []
   \<and> svelteKitProcessor bar_twice_route sample_config sample_page sample_state =
     Inr \<lparr>script =
            [ImportDeclaration [''GQL_Bar''] ''$houdini/stores/Bar'',
             SourceStatement ''const started = Date.now()''],
          console =
            [''error in src/routes/+page.js:'' @ [CHR 0x0A]
             @ ''could not find required variable function: BarVariables. maybe its not exported?'' @ [CHR 0x0A],
             ''error in src/routes/+page.js:'' @ [CHR 0x0A]
             @ ''could not find required variable function: BarVariables. maybe its not exported?'' @ [CHR 0x0A]]\<rparr>"
proof -
  have collected: "collect_queries bar_twice_route sample_page sample_state =
      Inr (([\<lparr>name = ''Bar'', variables = True, store_id = Identifier ''GQL_Bar''\<rparr>,
             \<lparr>name = ''Bar'', variables = True, store_id = MemberExpression (Identifier ''houdini_load'') (Literal (LNumber 0))\<rparr>],
            \<lparr>load = Some [\<lparr>name = ''Bar'', variables = True\<rparr>], exports = [''houdini_load'']\<rparr>),
           \<lparr>script =
              [ImportDeclaration [''GQL_Bar''] ''$houdini/stores/Bar'',
               SourceStatement ''const started = Date.now()''],
            console = []\<rparr>)"
    using collect_queries_steps
            [OF bar_twice_route_page_query bar_twice_route_inline_queries
                bar_twice_route_page_info]
    by simp
  have run: "svelteKitProcessor bar_twice_route sample_config sample_page sample_state =
      Inr (add_load bar_twice_route sample_page
             [\<lparr>name = ''Bar'', variables = True, store_id = Identifier ''GQL_Bar''\<rparr>,
              \<lparr>name = ''Bar'', variables = True, store_id = MemberExpression (Identifier ''houdini_load'') (Literal (LNumber 0))\<rparr>]
             \<lparr>load = Some [\<lparr>name = ''Bar'', variables = True\<rparr>], exports = [''houdini_load'']\<rparr>
             \<lparr>script =
                [ImportDeclaration [''GQL_Bar''] ''$houdini/stores/Bar'',
                 SourceStatement ''const started = Date.now()''],
              console = []\<rparr>)"
    using svelteKitProcessor_route_script [OF _ _ _ collected, of sample_config]
    by (simp add: sample_defs)
  show ?thesis
    unfolding run
    by (simp add: add_load_def missing_variable_fn_message_def query_variable_fn_def
        console_log_def bar_twice_route_def bar_store_def sample_defs)
qed


subsection \<open>A route script with its own load function\<close>







text \<open>
  A route script that exports \<open>load\<close> and no \<open>houdini_load\<close>: \<open>find_page_info\<close>
  reports no exports for it, and the processor appends a second exported \<open>load\<close>.
\<close>

lemma own_load_without_store_list:
  "import_module own_load_only_route (filepath sample_page) =
     Some \<lparr>keys = [''load''], houdini_load = NoExport\<rparr>
   \<and> svelteKitProcessor own_load_only_route sample_config sample_page sample_state =
     Inr \<lparr>script =
            [ImportDeclaration [''RequestContext''] ''$houdini/runtime/lib/network'',
             SourceStatement ''const started = Date.now()'',
             ExportNamedDeclaration
               (FunctionDeclaration (Identifier ''load'') [Identifier ''context'']
                  (BlockStatement
                     ([VariableDeclaration ''const''
                         [(Identifier ''houdini_context'',
                           NewExpression (Identifier ''RequestContext'') [Identifier ''context''])],
                       VariableDeclaration ''const'' [(Identifier ''inputs'', ObjectExpression [])],
                       VariableDeclaration ''const'' [(Identifier ''promises'', ArrayExpression [])],
                       VariableDeclaration ''const''
                         [(Identifier ''result'',
                           AwaitExpression
                             (CallExpression (MemberExpression (Identifier ''Promise'') (Identifier ''all''))
                                [Identifier ''promises'']))],
                       ReturnStatement
                         (ObjectExpression
                            [SpreadElement
                               (MemberExpression (Identifier ''houdini_context'') (Identifier ''returnValue'')),
                             ObjectProperty (Identifier ''inputs'') (Identifier ''inputs'')])]))
                  True)],
          console = []\<rparr>"
proof -
  have collected: "collect_queries own_load_only_route sample_page sample_state =
      Inr (([], nil), sample_state)"
    by (simp add: own_load_only_route_def own_load_module_def sample_defs processor_defs)
  have run: "svelteKitProcessor own_load_only_route sample_config sample_page sample_state =
      Inr (add_load own_load_only_route sample_page [] nil sample_state)"
    using svelteKitProcessor_route_script [OF _ _ _ collected, of sample_config]
    by (simp add: sample_defs)
  show ?thesis
    unfolding run
    by (simp add: add_load_explicit nil_def own_load_only_route_def own_load_module_def
        sample_defs)
qed


subsection \<open>The after hook\<close>







subsection \<open>One query and no hooks\<close>

lemma plain_route_collected:
  "collect_queries plain_route sample_page sample_state =
     Inr (([\<lparr>name = ''Foo'', variables = False, store_id = Identifier ''GQL_Foo''\<rparr>],
           nil),
          \<lparr>script =
             [ImportDeclaration [''GQL_Foo''] ''$houdini/stores/Foo'',
              SourceStatement ''const started = Date.now()''],
           console = []\<rparr>)"
  by (simp add: plain_route_def foo_literal_def sample_defs processor_defs)

lemma variable_fn_route_collected:
  "collect_queries variable_fn_route sample_page sample_state =
     Inr (([\<lparr>name = ''Foo'', variables = False, store_id = Identifier ''GQL_Foo''\<rparr>],
           \<lparr>load = Some [], exports = [''FooVariables'', ''houdini_load'']\<rparr>),
          \<lparr>script =
             [ImportDeclaration [''GQL_Foo''] ''$houdini/stores/Foo'',
              SourceStatement ''const started = Date.now()''],
           console = []\<rparr>)"
  by (simp add: variable_fn_route_def foo_literal_def sample_defs processor_defs)

text \<open>
  Claim C6. For a route script with exactly one query target that does not require
  variables, whose reported exports include none of \<open>load\<close>, \<open>beforeLoad\<close> and
  \<open>afterLoad\<close> and do not include the target's variable function, the processor adds
  the import of \<open>RequestContext\<close> and appends one exported asynchronous function
  \<open>load(context)\<close> of exactly seven statements: the declaration of the context wrapper
  \<open>new RequestContext(context)\<close>, the declarations of the empty \<open>inputs\<close> and
  \<open>promises\<close>, the assignment of \<open>{}\<close> to \<open>inputs[name]\<close>, the push of the store's
  \<open>fetch\<close> with \<open>variables: inputs[name]\<close>, \<open>event: context\<close> and
  \<open>blocking: false\<close>, the declaration of \<open>result\<close> as the awaited
  \<open>Promise.all(promises)\<close>, and the return of the wrapper's \<open>returnValue\<close> spread
  together with \<open>inputs\<close>. The claim leaves out the condition on the variable function;
  with the function exported the assignment is another one.
\<close>

theorem single_query_body:
  assumes "framework (config page) = ''kit''"
    and "\<not> isRoute (config page) (filepath page)"
    and "isRouteScript (config page) (filepath page)"
    and "collect_queries e page st = Inr (([query], page_info), st1)"
    and "''load'' \<notin> set (exports page_info)"
    and "''beforeLoad'' \<notin> set (exports page_info)"
    and "''afterLoad'' \<notin> set (exports page_info)"
    and "\<not> variables query"
    and "name query @ ''Variables'' \<notin> set (exports page_info)"
  shows "svelteKitProcessor e cfg page st =
           Inr (st1\<lparr>script :=
                      snd (ensure_imports e (script st1) [''RequestContext''] ''$houdini/runtime/lib/network'')
                      @ [ExportNamedDeclaration
                           (FunctionDeclaration (Identifier ''load'') [Identifier ''context'']
                              (BlockStatement
                                 ([VariableDeclaration ''const''
                                     [(Identifier ''houdini_context'',
                                       NewExpression (Identifier ''RequestContext'') [Identifier ''context''])],
                                   VariableDeclaration ''const'' [(Identifier ''inputs'', ObjectExpression [])],
                                   VariableDeclaration ''const'' [(Identifier ''promises'', ArrayExpression [])],
                                   ExpressionStatement
                                     (AssignmentExpression ''=''
                                        (MemberExpression (Identifier ''inputs'') (Literal (LString (name query))))
                                        (ObjectExpression [])),
                                   ExpressionStatement
                                     (CallExpression (MemberExpression (Identifier ''promises'') (Identifier ''push''))
                                        [CallExpression (MemberExpression (store_id query) (Identifier ''fetch''))
                                           [ObjectExpression
                                              [ObjectProperty (Literal (LString ''variables''))
                                                 (MemberExpression (Identifier ''inputs'') (Literal (LString (name query)))),
                                               ObjectProperty (Literal (LString ''event'')) (Identifier ''context''),
                                               ObjectProperty (Literal (LString ''blocking'')) (BooleanLiteral False)]]]),
                                   VariableDeclaration ''const''
                                     [(Identifier ''result'',
                                       AwaitExpression
                                         (CallExpression (MemberExpression (Identifier ''Promise'') (Identifier ''all''))
                                            [Identifier ''promises'']))],
                                   ReturnStatement
                                     (ObjectExpression
                                        [SpreadElement
                                           (MemberExpression (Identifier ''houdini_context'') (Identifier ''returnValue'')),
                                         ObjectProperty (Identifier ''inputs'') (Identifier ''inputs'')])]))
                              True)]\<rparr>)"
proof -
  have run: "svelteKitProcessor e cfg page st = Inr (add_load e page [query] page_info st1)"
    using assms(1-4) by (rule svelteKitProcessor_route_script)
  show ?thesis
    unfolding run using assms(5-9) by (simp add: add_load_explicit)
qed

theorem single_query_body_witness:
  "svelteKitProcessor plain_route sample_config sample_page sample_state =
     Inr \<lparr>script =
            [ImportDeclaration [''RequestContext''] ''$houdini/runtime/lib/network'',
             ImportDeclaration [''GQL_Foo''] ''$houdini/stores/Foo'',
             SourceStatement ''const started = Date.now()'',
             ExportNamedDeclaration
               (FunctionDeclaration (Identifier ''load'') [Identifier ''context'']
                  (BlockStatement
                     ([VariableDeclaration ''const''
                         [(Identifier ''houdini_context'',
                           NewExpression (Identifier ''RequestContext'') [Identifier ''context''])],
                       VariableDeclaration ''const'' [(Identifier ''inputs'', ObjectExpression [])],
                       VariableDeclaration ''const'' [(Identifier ''promises'', ArrayExpression [])],
                       ExpressionStatement
                         (AssignmentExpression ''=''
                            (MemberExpression (Identifier ''inputs'') (Literal (LString ''Foo'')))
                            (ObjectExpression [])),
                       ExpressionStatement
                         (CallExpression (MemberExpression (Identifier ''promises'') (Identifier ''push''))
                            [CallExpression (MemberExpression (Identifier ''GQL_Foo'') (Identifier ''fetch''))
                               [ObjectExpression
                                  [ObjectProperty (Literal (LString ''variables''))
                                     (MemberExpression (Identifier ''inputs'') (Literal (LString ''Foo''))),
                                   ObjectProperty (Literal (LString ''event'')) (Identifier ''context''),
                                   ObjectProperty (Literal (LString ''blocking'')) (BooleanLiteral False)]]]),
                       VariableDeclaration ''const''
                         [(Identifier ''result'',
                           AwaitExpression
                             (CallExpression (MemberExpression (Identifier ''Promise'') (Identifier ''all''))
                                [Identifier ''promises'']))],
                       ReturnStatement
                         (ObjectExpression
                            [SpreadElement
                               (MemberExpression (Identifier ''houdini_context'') (Identifier ''returnValue'')),
                             ObjectProperty (Identifier ''inputs'') (Identifier ''inputs'')])]))
                  True)],
          console = []\<rparr>"
  using single_query_body
          [OF _ _ _ plain_route_collected, of sample_config]
  by (simp add: plain_route_def sample_defs nil_def)

theorem single_query_counterexample:
  "collect_queries variable_fn_route sample_page sample_state =
     Inr (([\<lparr>name = ''Foo'', variables = False, store_id = Identifier ''GQL_Foo''\<rparr>],
           \<lparr>load = Some [], exports = [''FooVariables'', ''houdini_load'']\<rparr>),
          \<lparr>script =
             [ImportDeclaration [''GQL_Foo''] ''$houdini/stores/Foo'',
              SourceStatement ''const started = Date.now()''],
           console = []\<rparr>)
   \<and> svelteKitProcessor variable_fn_route sample_config sample_page sample_state =
     Inr \<lparr>script =
            [ImportDeclaration [''RequestContext''] ''$houdini/runtime/lib/network'',
             ImportDeclaration [''GQL_Foo''] ''$houdini/stores/Foo'',
             SourceStatement ''const started = Date.now()'',
             ExportNamedDeclaration
               (FunctionDeclaration (Identifier ''load'') [Identifier ''context'']
                  (BlockStatement
                     ([VariableDeclaration ''const''
                         [(Identifier ''houdini_context'',
                           NewExpression (Identifier ''RequestContext'') [Identifier ''context''])],
                       VariableDeclaration ''const'' [(Identifier ''inputs'', ObjectExpression [])],
                       VariableDeclaration ''const'' [(Identifier ''promises'', ArrayExpression [])],
                       ExpressionStatement
                         (AssignmentExpression ''=''
                            (MemberExpression (Identifier ''inputs'') (Literal (LString ''Foo'')))
                            (CallExpression
                               (MemberExpression (Identifier ''houdini_context'') (Identifier ''computeInput''))
                               [ObjectExpression
                                  [ObjectProperty (Literal (LString ''config'')) (Identifier ''houdiniConfig''),
                                   ObjectProperty (Literal (LString ''variableFunction'')) (Identifier ''FooVariables''),
                                   ObjectProperty (Literal (LString ''artifact''))
                                     (MemberExpression (Identifier ''GQL_Foo'') (Literal (LString ''artifact'')))]])),
                       ExpressionStatement
                         (CallExpression (MemberExpression (Identifier ''promises'') (Identifier ''push''))
                            [CallExpression (MemberExpression (Identifier ''GQL_Foo'') (Identifier ''fetch''))
                               [ObjectExpression
                                  [ObjectProperty (Literal (LString ''variables''))
                                     (MemberExpression (Identifier ''inputs'') (Literal (LString ''Foo''))),
                                   ObjectProperty (Literal (LString ''event'')) (Identifier ''context''),
                                   ObjectProperty (Literal (LString ''blocking'')) (BooleanLiteral False)]]]),
                       VariableDeclaration ''const''
                         [(Identifier ''result'',
                           AwaitExpression
                             (CallExpression (MemberExpression (Identifier ''Promise'') (Identifier ''all''))
                                [Identifier ''promises'']))],
                       ReturnStatement
                         (ObjectExpression
                            [SpreadElement
                               (MemberExpression (Identifier ''houdini_context'') (Identifier ''returnValue'')),
                             ObjectProperty (Identifier ''inputs'') (Identifier ''inputs'')])]))
                  True)],
          console = []\<rparr>"
proof -
  have run: "svelteKitProcessor variable_fn_route sample_config sample_page sample_state =
      Inr (add_load variable_fn_route sample_page
             [\<lparr>name = ''Foo'', variables = False, store_id = Identifier ''GQL_Foo''\<rparr>]
             \<lparr>load = Some [], exports = [''FooVariables'', ''houdini_load'']\<rparr>
             \<lparr>script =
                [ImportDeclaration [''GQL_Foo''] ''$houdini/stores/Foo'',
                 SourceStatement ''const started = Date.now()''],
              console = []\<rparr>)"
    using svelteKitProcessor_route_script [OF _ _ _ variable_fn_route_collected, of sample_config]
    by (simp add: sample_defs)
  have load: "svelteKitProcessor variable_fn_route sample_config sample_page sample_state =
     Inr \<lparr>script =
            [ImportDeclaration [''RequestContext''] ''$houdini/runtime/lib/network'',
             ImportDeclaration [''GQL_Foo''] ''$houdini/stores/Foo'',
             SourceStatement ''const started = Date.now()'',
             ExportNamedDeclaration
               (FunctionDeclaration (Identifier ''load'') [Identifier ''context'']
                  (BlockStatement
                     ([VariableDeclaration ''const''
                         [(Identifier ''houdini_context'',
                           NewExpression (Identifier ''RequestContext'') [Identifier ''context''])],
                       VariableDeclaration ''const'' [(Identifier ''inputs'', ObjectExpression [])],
                       VariableDeclaration ''const'' [(Identifier ''promises'', ArrayExpression [])],
                       ExpressionStatement
                         (AssignmentExpression ''=''
                            (MemberExpression (Identifier ''inputs'') (Literal (LString ''Foo'')))
                            (CallExpression
                               (MemberExpression (Identifier ''houdini_context'') (Identifier ''computeInput''))
                               [ObjectExpression
                                  [ObjectProperty (Literal (LString ''config'')) (Identifier ''houdiniConfig''),
                                   ObjectProperty (Literal (LString ''variableFunction'')) (Identifier ''FooVariables''),
                                   ObjectProperty (Literal (LString ''artifact''))
                                     (MemberExpression (Identifier ''GQL_Foo'') (Literal (LString ''artifact'')))]])),
                       ExpressionStatement
                         (CallExpression (MemberExpression (Identifier ''promises'') (Identifier ''push''))
                            [CallExpression (MemberExpression (Identifier ''GQL_Foo'') (Identifier ''fetch''))
                               [ObjectExpression
                                  [ObjectProperty (Literal (LString ''variables''))
                                     (MemberExpression (Identifier ''inputs'') (Literal (LString ''Foo''))),
                                   ObjectProperty (Literal (LString ''event'')) (Identifier ''context''),
                                   ObjectProperty (Literal (LString ''blocking'')) (BooleanLiteral False)]]]),
                       VariableDeclaration ''const''
                         [(Identifier ''result'',
                           AwaitExpression
                             (CallExpression (MemberExpression (Identifier ''Promise'') (Identifier ''all''))
                                [Identifier ''promises'']))],
                       ReturnStatement
                         (ObjectExpression
                            [SpreadElement
                               (MemberExpression (Identifier ''houdini_context'') (Identifier ''returnValue'')),
                             ObjectProperty (Identifier ''inputs'') (Identifier ''inputs'')])]))
                  True)],
          console = []\<rparr>"
    unfolding run by (simp add: add_load_explicit variable_fn_route_def sample_defs)
  from variable_fn_route_collected load show ?thesis ..
qed


subsection \<open>A route without queries\<close>

lemma mutation_only_route_collected:
  "collect_queries mutation_only_route sample_page sample_state = Inr (([], nil), sample_state)"
  by (simp add: mutation_only_route_def mutation_literal_def sample_defs processor_defs)

text \<open>
  Claim C10. For a route script for which the processor finds no query target at all (no
  query in a page query file, no inline query in the component, no entry in
  \<open>houdini_load\<close>) and whose exports do not include \<open>load\<close>, the processor still adds
  and exports an asynchronous \<open>load\<close> function. Its body constructs the context
  wrapper, declares the empty \<open>inputs\<close> and \<open>promises\<close>, awaits
  \<open>Promise.all(promises)\<close> and returns the wrapper's \<open>returnValue\<close> spread together
  with \<open>inputs\<close>; the hook calls are added around these when the hooks are exported.
\<close>

theorem load_without_queries:
  assumes "framework (config page) = ''kit''"
    and "\<not> isRoute (config page) (filepath page)"
    and "isRouteScript (config page) (filepath page)"
    and "collect_queries e page st = Inr (([], page_info), st1)"
    and "''load'' \<notin> set (exports page_info)"
  shows "svelteKitProcessor e cfg page st =
           Inr (st1\<lparr>script :=
                      snd (ensure_imports e (script st1) [''RequestContext''] ''$houdini/runtime/lib/network'')
                      @ [ExportNamedDeclaration
                           (FunctionDeclaration (Identifier ''load'') [Identifier ''context'']
                              (BlockStatement
                                 ([VariableDeclaration ''const''
                                     [(Identifier ''houdini_context'',
                                       NewExpression (Identifier ''RequestContext'') [Identifier ''context''])]]
                                  @ (if ''beforeLoad'' \<in> set (exports page_info)
                                     then [ExpressionStatement
                                             (AwaitExpression
                                                (CallExpression
                                                   (MemberExpression (Identifier ''houdini_context'') (Identifier ''invokeLoadHook''))
                                                   [ObjectExpression
                                                      [ObjectProperty (Literal (LString ''variant'')) (StringLiteral ''before''),
                                                       ObjectProperty (Literal (LString ''hookFn'')) (Identifier ''beforeLoad'')]]))]
                                     else [])
                                  @ [VariableDeclaration ''const'' [(Identifier ''inputs'', ObjectExpression [])],
                                     VariableDeclaration ''const'' [(Identifier ''promises'', ArrayExpression [])],
                                     VariableDeclaration ''const''
                                       [(Identifier ''result'',
                                         AwaitExpression
                                           (CallExpression (MemberExpression (Identifier ''Promise'') (Identifier ''all''))
                                              [Identifier ''promises'']))]]
                                  @ (if ''afterLoad'' \<in> set (exports page_info)
                                     then [ExpressionStatement
                                             (AwaitExpression
                                                (CallExpression
                                                   (MemberExpression (Identifier ''houdini_context'') (Identifier ''invokeLoadHook''))
                                                   [ObjectExpression
                                                      [ObjectProperty (Literal (LString ''variant'')) (StringLiteral ''after''),
                                                       ObjectProperty (Literal (LString ''hookFn'')) (Identifier ''afterLoad''),
                                                       ObjectProperty (Literal (LString ''input'')) (Identifier ''inputs''),
                                                       ObjectProperty (Literal (LString ''data''))
                                                         (ObjectExpression
                                                            [])]]))]
                                     else [])
                                  @ [ReturnStatement
                                       (ObjectExpression
                                          [SpreadElement
                                             (MemberExpression (Identifier ''houdini_context'') (Identifier ''returnValue'')),
                                           ObjectProperty (Identifier ''inputs'') (Identifier ''inputs'')])]))
                              True)]\<rparr>)"
proof -
  have run: "svelteKitProcessor e cfg page st = Inr (add_load e page [] page_info st1)"
    using assms(1-4) by (rule svelteKitProcessor_route_script)
  show ?thesis
    unfolding run using assms(5) by (simp add: add_load_explicit)
qed

theorem load_without_queries_witness:
  "svelteKitProcessor mutation_only_route sample_config sample_page sample_state =
     Inr \<lparr>script =
            [ImportDeclaration [''RequestContext''] ''$houdini/runtime/lib/network'',
             SourceStatement ''const started = Date.now()'',
             ExportNamedDeclaration
               (FunctionDeclaration (Identifier ''load'') [Identifier ''context'']
                  (BlockStatement
                     ([VariableDeclaration ''const''
                         [(Identifier ''houdini_context'',
                           NewExpression (Identifier ''RequestContext'') [Identifier ''context''])],
                       VariableDeclaration ''const'' [(Identifier ''inputs'', ObjectExpression [])],
                       VariableDeclaration ''const'' [(Identifier ''promises'', ArrayExpression [])],
                       VariableDeclaration ''const''
                         [(Identifier ''result'',
                           AwaitExpression
                             (CallExpression (MemberExpression (Identifier ''Promise'') (Identifier ''all''))
                                [Identifier ''promises'']))],
                       ReturnStatement
                         (ObjectExpression
                            [SpreadElement
                               (MemberExpression (Identifier ''houdini_context'') (Identifier ''returnValue'')),
                             ObjectProperty (Identifier ''inputs'') (Identifier ''inputs'')])]))
                  True)],
          console = []\<rparr>"
  using load_without_queries
          [OF _ _ _ mutation_only_route_collected, of sample_config]
  by (simp add: mutation_only_route_def sample_defs nil_def)


section \<open>Properties of query discovery\<close>

subsection \<open>The order of the query targets\<close>

lemma merged_route_page_query:
  "find_page_query merged_route sample_page sample_state =
     Inr (Some foo_target,
          \<lparr>script = [ImportDeclaration [''GQL_Foo''] ''$houdini/stores/Foo'',
                      SourceStatement ''const started = Date.now()''],
           console = []\<rparr>)"
  by (simp add: merged_route_def foo_target_def bar_component_def sample_defs processor_defs)

lemma merged_route_inline_queries:
  "find_inline_queries merged_route sample_page
     \<lparr>script = [ImportDeclaration [''GQL_Foo''] ''$houdini/stores/Foo'',
                 SourceStatement ''const started = Date.now()''],
      console = []\<rparr> =
     Inr ([bar_target],
          \<lparr>script = [ImportDeclaration [''GQL_Bar''] ''$houdini/stores/Bar'',
                      ImportDeclaration [''GQL_Foo''] ''$houdini/stores/Foo'',
                      SourceStatement ''const started = Date.now()''],
           console = []\<rparr>)"
  by (simp add: merged_route_def bar_target_def bar_component_def sample_defs processor_defs)

lemma merged_route_page_info:
  "find_page_info merged_route sample_page st = Inr (merged_route_info, st)"
  by (simp add: merged_route_def merged_route_info_def bar_component_def sample_defs processor_defs)

text \<open>
  Claim C2, amended. The list of query targets of a route is the concatenation, in this
  order and without removing duplicates, of the inline queries found in the component, the
  query of the page query file if there is one, and the entries of the exported
  \<open>houdini_load\<close> list, the i-th entry with the reference \<open>houdini_load[i]\<close>.
\<close>

theorem merge_order:
  assumes "find_page_query e page st = Inr (page_query, st1)"
    and "find_inline_queries e page st1 = Inr (inline_queries, st2)"
    and "find_page_info e page st2 = Inr (page_info, st3)"
  shows "collect_queries e page st =
           Inr ((inline_queries
                 @ (case page_query of None \<Rightarrow> [] | Some target \<Rightarrow> [target])
                 @ map (\<lambda>(i, target).
                          \<lparr>name = name target, variables = variables target,
                           store_id = MemberExpression (Identifier ''houdini_load'')
                                        (Literal (LNumber i))\<rparr>)
                     (enumerate 0 (case load page_info of None \<Rightarrow> [] | Some targets \<Rightarrow> targets)),
                 page_info), st3)"
  using assms by (simp add: collect_queries_def houdini_load_targets_def)

theorem merge_order_witness:
  "collect_queries merged_route sample_page sample_state =
     Inr (([bar_target, foo_target, baz_listed_target], merged_route_info),
          \<lparr>script = [ImportDeclaration [''GQL_Bar''] ''$houdini/stores/Bar'',
                      ImportDeclaration [''GQL_Foo''] ''$houdini/stores/Foo'',
                      SourceStatement ''const started = Date.now()''],
           console = []\<rparr>)"
  using merge_order [OF merged_route_page_query merged_route_inline_queries merged_route_page_info]
  by (simp add: merged_route_info_def baz_listed_target_def)

text \<open>
  The claim as stated puts the page query first. On a route with the page query \<open>Foo\<close>,
  the inline query \<open>Bar\<close> and the listed store \<open>Baz\<close> the processor collects
  \<open>Bar, Foo, Baz\<close>.
\<close>

theorem merge_order_counterexample:
  "collect_queries merged_route sample_page sample_state =
     Inr (([bar_target, foo_target, baz_listed_target], merged_route_info),
          \<lparr>script = [ImportDeclaration [''GQL_Bar''] ''$houdini/stores/Bar'',
                      ImportDeclaration [''GQL_Foo''] ''$houdini/stores/Foo'',
                      SourceStatement ''const started = Date.now()''],
           console = []\<rparr>)
   \<and> spec_merge_order (Some foo_target) [bar_target] merged_route_info =
     [foo_target, bar_target, baz_listed_target]
   \<and> [bar_target, foo_target, baz_listed_target] \<noteq>
     spec_merge_order (Some foo_target) [bar_target] merged_route_info"
  by (simp add: collect_queries_def merged_route_page_query merged_route_inline_queries
      merged_route_page_info spec_merge_order_def houdini_load_targets_def
      merged_route_info_def baz_listed_target_def foo_target_def bar_target_def)

subsection \<open>The exported list of stores\<close>






text \<open>
  An entry of the list that is no object is outside the theorem. \<open>find_page_info\<close> asks
  \<open>'kind' in store\<close> of every entry, which throws for a string, and nothing catches the
  error; the other revision parses the string and takes the query it holds.
\<close>

lemma string_in_store_list:
  "import_module string_list_route (filepath sample_page) =
     Some \<lparr>keys = [''houdini_load''],
            houdini_load = EntryArray [StringEntry ''query Foo { viewer { id } }'']\<rparr>
   \<and> find_page_info string_list_route sample_page sample_state =
     Inl (TypeError, sample_state)
   \<and> SvelteKitProcessor_find_page_info string_list_route sample_page sample_state =
     Inr (\<lparr>load = Some [\<lparr>name = ''Foo'', variables = False\<rparr>], exports = [''houdini_load'']\<rparr>,
          sample_state)"
  by (simp add: string_list_route_def find_page_info_def SvelteKitProcessor_find_page_info_def
      nil_def sample_defs)


subsection \<open>A page query file that does not parse\<close>

text \<open>
  \<open>find_page_query\<close> calls the parser outside any handler, and nothing between it and
  the caller of the processor catches: when the page query file of a route does not parse,
  the error leaves the processor, with the page as it was and nothing written to the
  console.
\<close>

lemma malformed_page_query_propagates:
  assumes "framework (config page) = ''kit''"
    and "isRoute (config page) (filepath page) \<or> isRouteScript (config page) (filepath page)"
    and "readFile e (pageQueryPath (config page) (filepath page)) = Some contents"
    and "contents \<noteq> []"
    and "graphql_parse e contents = None"
  shows "find_page_query e page st = Inl (GraphQLError, st)
         \<and> svelteKitProcessor e cfg page st = Inl (GraphQLError, st)"
proof -
  have query: "find_page_query e page st = Inl (GraphQLError, st)"
    using assms(3-5) by (simp add: find_page_query_def)
  then have "collect_queries e page st = Inl (GraphQLError, st)"
    by (simp add: collect_queries_def)
  with assms(1,2) have "svelteKitProcessor e cfg page st = Inl (GraphQLError, st)"
    by (auto simp: svelteKitProcessor_def)
  with query show ?thesis ..
qed

text \<open>
  The neighbouring cases are handled: a page query file that parses and holds no query is
  skipped with a message, and the other revision of the processor parses the strings of
  \<open>houdini_load\<close> inside a handler that writes a message and goes on to the next entry.
\<close>

lemma page_query_without_query:
  assumes "readFile e (pageQueryPath (config page) (filepath page)) = Some contents"
    and "contents \<noteq> []"
    and "graphql_parse e contents = Some parsed"
    and "find is_query_definition parsed = None"
  shows "find_page_query e page st =
           Inr (None, st\<lparr>console := console st @ [''page.gql must contain a query'']\<rparr>)"
  using assms by (simp add: find_page_query_def console_log_def)

lemma unparsable_string_skipped:
  assumes "graphql_parse e document = None"
  shows "SvelteKitProcessor_documents e (StringEntry document # rest) load_list seen st =
           SvelteKitProcessor_documents e rest load_list seen
             (st\<lparr>console := console st @ [''we got a string that isn't a graphql query'']\<rparr>)"
  using assms by (simp add: console_log_def)

text \<open>
  Claim C8. The claim has a page query file that does not parse skipped with a logged
  message, and the rest of the route processed. The page query file of the route below is
  cut off in the middle, and the parser rejects it. \<open>find_page_query\<close> ends with the
  parser's error, and so does the processor: the route script is not processed, and the
  state that the error leaves behind is the state the processor started in, with an empty
  console.
\<close>

theorem malformed_page_query_fatal:
  "readFile malformed_page_query_route (pageQueryPath sample_config (filepath sample_page)) =
     Some ''query Foo { viewer {''
   \<and> graphql_parse malformed_page_query_route ''query Foo { viewer {'' = None
   \<and> console sample_state = []
   \<and> find_page_query malformed_page_query_route sample_page sample_state =
     Inl (GraphQLError, sample_state)
   \<and> svelteKitProcessor malformed_page_query_route sample_config sample_page sample_state =
     Inl (GraphQLError, sample_state)"
  by (simp add: malformed_page_query_route_def svelteKitProcessor_def sample_env_def
      sample_page_def sample_config_def sample_state_def sample_parse_def processor_defs)


subsection \<open>Inline queries\<close>











end
